theory Spec2Isabelle
  imports
    Complex_Main
    "HOL-Library.Char_ord"
    "HOL-Library.List_Lexorder"
    "HOL-Library.Product_Lexorder"
    "HOL-Library.Multiset"
    "HOL-Library.Log_Nat"
begin

chapter \<open>The dataset dispatcher, the config classifier and the peak table\<close>

text \<open>
  A shallow embedding of the engine's decision logic: \<open>ConfigDiff.compare_configs\<close>
  and the queued dispatcher \<open>SMapiDatasetManager\<close> of \<open>dataset_manager.py\<close>,
  \<open>Dataset\<close> of \<open>dataset.py\<close>, and the peak table \<open>MolecularDB.sf_df\<close> of
  \<open>mol_db.py\<close>. Exceptions are values, the state of the collaborators (storage,
  search index, queues) is passed explicitly, and every function returns the state it
  leaves behind, also when it raises.
\<close>

section \<open>Values and errors\<close>

text \<open>
  Configurations and metadata are JSON documents held in Python dicts and lists.
  Python compares them with \<open>==\<close>: dicts by their key/value mapping (insertion order is
  not observed), lists element by element, and numbers by value, where \<open>True\<close> and
  \<open>False\<close> are the numbers 1 and 0 (\<open>True == 1\<close>, same hash). The datatype is chosen so
  that HOL equality is that comparison: a dict is a map from keys to values, and a
  boolean is the number it equals. Numbers are exact rationals, which covers the
  integers and every finite float; NaN and the infinities are not JSON.
\<close>

datatype json =
    JNull
  | JNum rat
  | JStr string
  | JList "json list"
  | JDict "string \<Rightarrow> json option"

type_synonym dict = "string \<Rightarrow> json option"

definition JBool :: "bool \<Rightarrow> json" where
  "JBool b = JNum (if b then 1 else 0)"

text \<open>The exceptions the modelled code raises.\<close>

datatype error =
    DSIDExists
  | UnknownDSID
  | AssertionError
  | AttributeError
  | KeyError
  | TypeError
  | ZeroDivisionError
  | OverflowError

text \<open>Python's truth value of a JSON value (\<open>if email:\<close>).\<close>

definition truthy :: "json \<Rightarrow> bool" where
  "truthy v = (case v of
      JNull \<Rightarrow> False
    | JNum n \<Rightarrow> n \<noteq> 0
    | JStr s \<Rightarrow> s \<noteq> []
    | JList xs \<Rightarrow> xs \<noteq> []
    | JDict d \<Rightarrow> d \<noteq> Map.empty)"

text \<open>Lists and dicts cannot be members of a Python set.\<close>

definition hashable :: "json \<Rightarrow> bool" where
  "hashable v = (case v of JList xs \<Rightarrow> False | JDict d \<Rightarrow> False | _ \<Rightarrow> True)"

section \<open>ConfigDiff.compare_configs\<close>

datatype config_diff = EQUAL | NEW_MOL_DB | INSTR_PARAMS_DIFF

text \<open>
  \<^verbatim>\<open>(mol_db['name'], mol_db.get('version', None))\<close> for one element of the databases
  list: subscripting anything but a dict with a string is a TypeError, a dict without
  the key \<open>name\<close> a KeyError.
\<close>

definition mol_db_pair :: "json \<Rightarrow> error + (json \<times> json)" where
  "mol_db_pair mol_db = (case mol_db of
      JDict d \<Rightarrow>
        (case d ''name'' of
           None \<Rightarrow> Inl KeyError
         | Some n \<Rightarrow> Inr (n, (case d ''version'' of None \<Rightarrow> JNull | Some v \<Rightarrow> v)))
    | _ \<Rightarrow> Inl TypeError)"

text \<open>
  \<^verbatim>\<open>set(... for mol_db in mol_dbs)\<close> over a list: the elements are taken in order, each
  pair is built and then hashed, and the first failure is the one raised.
\<close>

fun mol_dbs_to_set_list :: "json list \<Rightarrow> error + (json \<times> json) set" where
  "mol_dbs_to_set_list [] = Inr {}"
| "mol_dbs_to_set_list (mol_db # rest) =
     (case mol_db_pair mol_db of
        Inl e \<Rightarrow> Inl e
      | Inr (n, v) \<Rightarrow>
          if \<not> (hashable n \<and> hashable v) then Inl TypeError
          else (case mol_dbs_to_set_list rest of
                  Inl e \<Rightarrow> Inl e
                | Inr s \<Rightarrow> Inr (insert (n, v) s)))"

text \<open>
  The argument is whatever the config holds under \<open>databases\<close>. Iterating a string
  gives its characters and iterating a dict its keys, which are strings and cannot be
  subscripted with \<open>'name'\<close>; a number or \<open>None\<close> cannot be iterated at all.
\<close>

definition mol_dbs_to_set :: "json \<Rightarrow> error + (json \<times> json) set" where
  "mol_dbs_to_set mol_dbs = (case mol_dbs of
      JList xs \<Rightarrow> mol_dbs_to_set_list xs
    | JStr s \<Rightarrow> (if s = [] then Inr {} else Inl TypeError)
    | JDict d \<Rightarrow> (if d = Map.empty then Inr {} else Inl TypeError)
    | _ \<Rightarrow> Inl TypeError)"

text \<open>\<^verbatim>\<open>config.get('databases', [])\<close>\<close>

definition get_databases :: "dict \<Rightarrow> json" where
  "get_databases c = (case c ''databases'' of None \<Rightarrow> JList [] | Some v \<Rightarrow> v)"

text \<open>
  The function as a function of the two dicts' contents. \<^verbatim>\<open>len(s) > 0\<close> of a set is
  written \<open>s \<noteq> {}\<close>.
\<close>

definition compare_configs :: "dict \<Rightarrow> dict \<Rightarrow> error + config_diff" where
  "compare_configs old new =
     (if old \<noteq> new then
        let old_rest = old(''databases'' := None);
            new_rest = new(''databases'' := None)
        in if old_rest \<noteq> new_rest then Inr INSTR_PARAMS_DIFF
           else (case mol_dbs_to_set (get_databases old) of
                   Inl e \<Rightarrow> Inl e
                 | Inr old_mol_dbs \<Rightarrow>
                     (case mol_dbs_to_set (get_databases new) of
                        Inl e \<Rightarrow> Inl e
                      | Inr new_mol_dbs \<Rightarrow>
                          if new_mol_dbs - old_mol_dbs \<noteq> {} then Inr NEW_MOL_DB
                          else Inr EQUAL))
      else Inr EQUAL)"

subsection \<open>The same function on a store of dict objects\<close>

text \<open>
  Python passes the two configs by reference, \<^verbatim>\<open>copy()\<close> allocates a new dict and
  \<^verbatim>\<open>pop\<close> changes a dict in place. The store is the list of the dict objects that
  exist, an object's address being its index; the values inside a dict are shared
  between a dict and its shallow copy and nothing in the function changes them.
\<close>

type_synonym heap = "dict list"

definition dict_copy :: "heap \<Rightarrow> nat \<Rightarrow> nat \<times> heap" where
  "dict_copy h r = (length h, h @ [h ! r])"

definition dict_pop :: "heap \<Rightarrow> nat \<Rightarrow> string \<Rightarrow> heap" where
  "dict_pop h r k = h[r := (h ! r)(k := None)]"

definition compare_configs_heap :: "heap \<Rightarrow> nat \<Rightarrow> nat \<Rightarrow> (error + config_diff) \<times> heap" where
  "compare_configs_heap h old new =
     (if h ! old \<noteq> h ! new then
        let (old_rest, h1) = dict_copy h old;
            (new_rest, h2) = dict_copy h1 new;
            h3 = dict_pop h2 old_rest ''databases'';
            h4 = dict_pop h3 new_rest ''databases''
        in if h4 ! old_rest \<noteq> h4 ! new_rest then (Inr INSTR_PARAMS_DIFF, h4)
           else (case mol_dbs_to_set (get_databases (h4 ! old)) of
                   Inl e \<Rightarrow> (Inl e, h4)
                 | Inr old_mol_dbs \<Rightarrow>
                     (case mol_dbs_to_set (get_databases (h4 ! new)) of
                        Inl e \<Rightarrow> (Inl e, h4)
                      | Inr new_mol_dbs \<Rightarrow>
                          if new_mol_dbs - old_mol_dbs \<noteq> {} then (Inr NEW_MOL_DB, h4)
                          else (Inr EQUAL, h4)))
      else (Inr EQUAL, h))"

subsection \<open>The classifier as the specification words it\<close>

text \<open>
  The reference definition of the specification: strip \<open>databases\<close> from both configs
  and compare the remainder; otherwise compare the sets of (name, version) pairs of
  the two \<open>databases\<close> lists. An entry with no name contributes no pair.
\<close>

definition name_version :: "json \<Rightarrow> (json \<times> json) option" where
  "name_version v = (case v of
      JDict d \<Rightarrow>
        (case d ''name'' of
           None \<Rightarrow> None
         | Some n \<Rightarrow> Some (n, (case d ''version'' of None \<Rightarrow> JNull | Some x \<Rightarrow> x)))
    | _ \<Rightarrow> None)"

definition db_pairs :: "dict \<Rightarrow> (json \<times> json) set" where
  "db_pairs c = (case c ''databases'' of
      Some (JList xs) \<Rightarrow> set (List.map_filter name_version xs)
    | _ \<Rightarrow> {})"

definition classify :: "dict \<Rightarrow> dict \<Rightarrow> config_diff" where
  "classify old new =
     (if old(''databases'' := None) \<noteq> new(''databases'' := None) then INSTR_PARAMS_DIFF
      else if (\<exists>p \<in> db_pairs new. p \<notin> db_pairs old) then NEW_MOL_DB
      else EQUAL)"

text \<open>
  A config as the data model has it: \<open>databases\<close>, when present, is a list of
  selections \<open>{name, version?}\<close> whose name and version are scalars.
\<close>

definition is_mol_db :: "json \<Rightarrow> bool" where
  "is_mol_db v = (case v of
      JDict d \<Rightarrow>
        (case d ''name'' of
           None \<Rightarrow> False
         | Some n \<Rightarrow> hashable n \<and> (case d ''version'' of None \<Rightarrow> True | Some x \<Rightarrow> hashable x))
    | _ \<Rightarrow> False)"

definition wf_config :: "dict \<Rightarrow> bool" where
  "wf_config c = (case c ''databases'' of
      None \<Rightarrow> True
    | Some (JList xs) \<Rightarrow> list_all is_mol_db xs
    | Some _ \<Rightarrow> False)"

section \<open>MolecularDB.sf_df\<close>

text \<open>
  A row of a theoretical-peaks query: \<open>(sf_id, adduct, centr_mzs, centr_ints)\<close>.
\<close>

type_synonym peak_row = "int \<times> string \<times> rat list \<times> rat list"

definition sf_adduct :: "peak_row \<Rightarrow> int \<times> string" where
  "sf_adduct r = (fst r, fst (snd r))"

text \<open>
  The part of a MolecularDB instance that the property reads and writes: the cached
  table \<open>_sf_df\<close>, with the database id and the job id the queries are made for.
\<close>

record molecular_db =
  priv_id :: nat
  priv_job_id :: "nat option"
  priv_sf_df :: "peak_row list option"

text \<open>
  \<^verbatim>\<open>pd.unique(sf_df[['sf_id', 'adduct']].values).shape[0]\<close>: the two columns are the
  rows' \<open>(sf_id, adduct)\<close> pairs and the count is the number of distinct ones.
\<close>

definition check_formula_uniqueness :: "peak_row list \<Rightarrow> error + unit" where
  "check_formula_uniqueness sf_df =
     (let uniq_sf_adducts = length (remdups (map sf_adduct sf_df))
      in if uniq_sf_adducts = length sf_df then Inr () else Inl AssertionError)"

text \<open>
  The property \<open>sf_df\<close>. Its first two arguments are what the two \<^verbatim>\<open>self._db.select\<close>
  calls return, the target rows and the decoy rows; the second query is only made
  once the first result has passed its assertion. \<^verbatim>\<open>sort_values(['sf_id', 'adduct'])\<close>
  is a stable sort on the pair. The table is stored in \<open>_sf_df\<close> before it is checked.
\<close>

definition sf_df ::
  "peak_row list \<Rightarrow> peak_row list \<Rightarrow> molecular_db \<Rightarrow> (error + peak_row list) \<times> molecular_db" where
  "sf_df target_sf_peaks_rs decoy_sf_peaks_rs self =
     (case priv_sf_df self of
        Some df \<Rightarrow> (Inr df, self)
      | None \<Rightarrow>
          if target_sf_peaks_rs = [] then (Inl AssertionError, self)
          else if decoy_sf_peaks_rs = [] then (Inl AssertionError, self)
          else
            let sf_peak_rs = target_sf_peaks_rs @ decoy_sf_peaks_rs;
                df = sort_key sf_adduct sf_peak_rs;
                self' = self\<lparr>priv_sf_df := Some df\<rparr>
            in (case check_formula_uniqueness df of
                  Inl e \<Rightarrow> (Inl e, self')
                | Inr u \<Rightarrow> (Inr df, self')))"

section \<open>SMapiDatasetManager._transform_scan\<close>

subsection \<open>Floating point\<close>

text \<open>
  Python's \<open>float\<close> and numpy's \<open>float64\<close> are IEEE 754 binary64 numbers. A finite
  one is modelled by the rational it denotes; an operation computes the exact
  rational result and rounds it to the nearest binary64 number, a tie going to the
  one with the even significand.

  Python 3's \<^verbatim>\<open>round\<close> of one argument gives the nearest integer, a tie going to the
  even one; on a float it is exact.
\<close>

definition py_round :: "rat \<Rightarrow> int" where
  "py_round x =
     (let f = \<lfloor>x\<rfloor>; r = x - of_int f
      in if r < 1 / 2 then f
         else if 1 / 2 < r then f + 1
         else if even f then f else f + 1)"

definition pow2 :: "int \<Rightarrow> rat" where
  "pow2 e = (if 0 \<le> e then 2 ^ nat e else 1 / 2 ^ nat (- e))"

text \<open>For \<open>x > 0\<close>, the \<open>k\<close> with \<open>2^k \<le> x < 2^(k+1)\<close>.\<close>

definition floor_log2 :: "rat \<Rightarrow> int" where
  "floor_log2 x =
     (case quotient_of x of
        (p, q) \<Rightarrow> let k = bitlen p - bitlen q in if pow2 k \<le> x then k else k - 1)"

text \<open>
  Rounding to binary64: the significand has 53 bits, so the spacing of the numbers
  around \<open>x\<close> is \<open>2^e\<close> with \<open>e = floor_log2 |x| - 52\<close>, and never less than \<open>2^-1074\<close>,
  the spacing of the subnormal numbers. \<open>x\<close> is rounded to the nearest multiple of that
  spacing. A result of magnitude \<open>2^1024\<close> or more is not a finite float.
\<close>

definition float64_round :: "rat \<Rightarrow> rat" where
  "float64_round x =
     (if x = 0 then 0
      else let e = max (floor_log2 \<bar>x\<bar> - 52) (- 1074)
           in of_int (py_round (x / pow2 e)) * pow2 e)"

definition overflows :: "rat \<Rightarrow> bool" where
  "overflows r = (pow2 1024 \<le> \<bar>r\<bar>)"

text \<open>
  A numpy array element: \<open>None\<close> stands for a value that is not finite (an infinity
  or a NaN). Dividing by zero gives such a value (with a warning, not an exception),
  and so does dividing such a value by any finite number.
\<close>

definition float64 :: "rat \<Rightarrow> rat option" where
  "float64 x = (let r = float64_round x in if overflows r then None else Some r)"

definition np_div :: "rat option \<Rightarrow> rat \<Rightarrow> rat option" where
  "np_div x z = (case x of
      None \<Rightarrow> None
    | Some a \<Rightarrow> if z = 0 then None else float64 (a / z))"

subsection \<open>The effective zoom\<close>

definition VIEWPORT_WIDTH :: rat where
  "VIEWPORT_WIDTH = 1000"

definition VIEWPORT_HEIGHT :: rat where
  "VIEWPORT_HEIGHT = 500"

text \<open>
  \<^verbatim>\<open>zoom = int(round(zoom * min(VIEWPORT_WIDTH / dims[0], VIEWPORT_HEIGHT / dims[1])))\<close>,
  the first statement of \<open>_transform_scan\<close>. \<open>dims\<close> is the pixel size of an image, two
  non-negative ints, and \<open>zoom\<close> an int or a float. Each int is converted to a float
  where it meets one (OverflowError when it is too large), a float division by zero
  raises, and \<open>round\<close> of an infinite product raises OverflowError. The quotients
  cannot overflow, their divisors being at least 1.
\<close>

definition transform_scan_zoom :: "rat \<Rightarrow> nat \<times> nat \<Rightarrow> error + int" where
  "transform_scan_zoom zoom dims =
     (let w = float64_round (of_nat (fst dims))
      in if overflows w then Inl OverflowError
         else if w = 0 then Inl ZeroDivisionError
         else
           let h = float64_round (of_nat (snd dims))
           in if overflows h then Inl OverflowError
              else if h = 0 then Inl ZeroDivisionError
              else
                let m = min (float64_round (VIEWPORT_WIDTH / w))
                            (float64_round (VIEWPORT_HEIGHT / h));
                    z = float64_round zoom
                in if overflows z then Inl OverflowError
                   else
                     let p = float64_round (z * m)
                     in if overflows p then Inl OverflowError
                        else Inr (py_round p))"

subsection \<open>The arguments of the perspective warp\<close>

text \<open>
  The rest of \<open>_transform_scan\<close>, up to the call of PIL's \<open>scan.transform\<close>, of which
  the model returns the first and the third argument: the canvas size
  \<^verbatim>\<open>(dims[0] * zoom, dims[1] * zoom)\<close> and the eight coefficients. The argument \<open>transform_\<close>, here \<open>transform0\<close>, is a
  list of rows of numbers; anything but three rows of three fails the assertion on
  the shape. \<^verbatim>\<open>transform / transform[2, 2]\<close> and \<^verbatim>\<open>transform[:, :2] /= zoom\<close> are
  numpy divisions, element by element and without exceptions. What PIL does with its
  arguments is not modelled.
\<close>

definition transform_scan ::
  "rat list list \<Rightarrow> nat \<times> nat \<Rightarrow> rat \<Rightarrow> error + ((int \<times> int) \<times> rat option list)" where
  "transform_scan transform0 dims zoom0 =
     (case transform_scan_zoom zoom0 dims of
        Inl e \<Rightarrow> Inl e
      | Inr zoom \<Rightarrow>
          if \<not> (length transform0 = 3 \<and> list_all (\<lambda>row. length row = 3) transform0)
          then Inl AssertionError
          else
            let t22 = float64_round (transform0 ! 2 ! 2);
                t1 = map (map (\<lambda>x. np_div (float64 x) t22)) transform0;
                t2 = map (\<lambda>row. map (\<lambda>x. np_div x (of_int zoom)) (take 2 row) @ drop 2 row) t1;
                coeffs = take 8 (concat t2)
            in Inr ((int (fst dims) * zoom, int (snd dims) * zoom), coeffs))"

section \<open>Dataset\<close>

text \<open>DatasetStatus: the statuses are the strings themselves.\<close>

definition NEW :: string where "NEW = ''NEW''"
definition QUEUED :: string where "QUEUED = ''QUEUED''"
definition STARTED :: string where "STARTED = ''STARTED''"
definition FINISHED :: string where "FINISHED = ''FINISHED''"
definition FAILED :: string where "FAILED = ''FAILED''"
definition INDEXING :: string where "INDEXING = ''INDEXING''"
definition DELETED :: string where "DELETED = ''DELETED''"

text \<open>
  The attributes \<open>__init__\<close> assigns, \<open>None\<close> being the value of an attribute that was
  not given. \<open>id\<close> is written \<open>ds_id\<close>.
\<close>

record dataset =
  ds_id :: "string option"
  name :: "string option"
  input_path :: "string option"
  upload_dt :: "nat option"
  metadata :: "dict option"
  config :: "dict option"
  status :: "string option"
  is_public :: "bool option"
  mol_dbs :: "nat list option"

text \<open>\<^verbatim>\<open>Dataset(id=..., name=..., ...)\<close> with the defaults of \<open>__init__\<close>.\<close>

definition Dataset :: "string option \<Rightarrow> dataset" where
  "Dataset i = \<lparr> ds_id = i, name = None, input_path = None, upload_dt = None,
     metadata = None, config = None, status = Some NEW, is_public = Some True,
     mol_dbs = None \<rparr>"

text \<open>
  Reading an attribute by its name. A Dataset object has the attributes of \<open>__init__\<close>
  and no others (the class defines no \<open>__getattr__\<close>), so any other name raises
  AttributeError. Reads of the nine attributes are written as field selections below.
\<close>

datatype attr =
    AStr "string option"
  | ADate "nat option"
  | ADict "dict option"
  | ABool "bool option"
  | AIds "nat list option"

definition getattr :: "dataset \<Rightarrow> string \<Rightarrow> error + attr" where
  "getattr ds a =
     (if a = ''id'' then Inr (AStr (ds_id ds))
      else if a = ''name'' then Inr (AStr (name ds))
      else if a = ''input_path'' then Inr (AStr (input_path ds))
      else if a = ''upload_dt'' then Inr (ADate (upload_dt ds))
      else if a = ''metadata'' then Inr (ADict (metadata ds))
      else if a = ''config'' then Inr (ADict (config ds))
      else if a = ''status'' then Inr (AStr (status ds))
      else if a = ''is_public'' then Inr (ABool (is_public ds))
      else if a = ''mol_dbs'' then Inr (AIds (mol_dbs ds))
      else Inl AttributeError)"

section \<open>The dispatcher and its collaborators\<close>

text \<open>DatasetAction and DatasetActionPriority.\<close>

definition ADD :: string where "ADD = ''ADD''"
definition UPDATE :: string where "UPDATE = ''UPDATE''"
definition DELETE :: string where "DELETE = ''DELETE''"

definition LOW :: int where "LOW = 0"
definition STANDARD :: int where "STANDARD = 1"
definition HIGH :: int where "HIGH = 2"
definition DEFAULT :: int where "DEFAULT = LOW"

text \<open>
  An SMapiDatasetManager together with the state of the collaborators it holds:
  \<^item> \<open>db\<close>: the rows of the \<open>dataset\<close> table by id, a row holding the saved attributes
    (the round trip through \<open>isoformat\<close> and \<open>json.dumps\<close> is taken to return the value
    that was written);
  \<^item> \<open>es\<close>: the ids given to \<open>sync_dataset\<close>, in order;
  \<^item> \<open>status_queue\<close>: the \<open>(ds_id, status)\<close> notifications published, or \<open>None\<close> when
    the manager was built without a status queue;
  \<^item> \<open>action_queue\<close>: the \<open>(message, priority)\<close> pairs published, or \<open>None\<close> when the
    manager was built without an action queue;
  \<^item> \<open>mode\<close>: \<open>'queue'\<close> or \<open>'local'\<close>;
  \<^item> \<open>logger\<close>: the log lines written, by their format strings.
  Failures of the collaborators themselves are not modelled.
\<close>

record smapi =
  db :: "string \<Rightarrow> dataset option"
  es :: "string list"
  status_queue :: "(string \<times> string) list option"
  action_queue :: "(dict \<times> int) list option"
  mode :: string
  logger :: "string list"

text \<open>Truth values of the attributes the assertion of \<open>save\<close> tests.\<close>

definition truthy_str :: "string option \<Rightarrow> bool" where
  "truthy_str x = (case x of None \<Rightarrow> False | Some s \<Rightarrow> s \<noteq> [])"

definition truthy_dict :: "dict option \<Rightarrow> bool" where
  "truthy_dict x = (case x of None \<Rightarrow> False | Some d \<Rightarrow> d \<noteq> Map.empty)"

definition truthy_ids :: "nat list option \<Rightarrow> bool" where
  "truthy_ids x = (case x of None \<Rightarrow> False | Some xs \<Rightarrow> xs \<noteq> [])"

text \<open>\<open>Dataset.is_stored\<close>: a row with this id exists. No row has the id \<open>None\<close>.\<close>

definition is_stored :: "smapi \<Rightarrow> dataset \<Rightarrow> bool" where
  "is_stored s ds = (case ds_id ds of None \<Rightarrow> False | Some i \<Rightarrow> db s i \<noteq> None)"

text \<open>\<open>Dataset.load\<close>\<close>

definition load :: "smapi \<Rightarrow> string option \<Rightarrow> error + dataset" where
  "load s i = (case i of
      None \<Rightarrow> Inl UnknownDSID
    | Some k \<Rightarrow> (case db s k of
                   None \<Rightarrow> Inl UnknownDSID
                 | Some row \<Rightarrow> Inr (row\<lparr>ds_id := Some k\<rparr>)))"

text \<open>
  The assertion that opens \<open>Dataset.save\<close>: a datetime is always true, so \<open>upload_dt\<close>
  only has to be there; \<open>is_public\<close> is compared with \<open>None\<close>; \<open>metadata\<close> is not
  part of it.
\<close>

definition save_assert :: "dataset \<Rightarrow> bool" where
  "save_assert ds =
     (truthy_str (ds_id ds) \<and> truthy_str (name ds) \<and> truthy_str (input_path ds)
      \<and> upload_dt ds \<noteq> None \<and> truthy_dict (config ds) \<and> truthy_str (status ds)
      \<and> is_public ds \<noteq> None \<and> truthy_ids (mol_dbs ds))"

text \<open>
  \<open>Dataset.save\<close>: the row is inserted when the id is new and updated in all its
  columns otherwise, then the search index is synchronised and the status is
  published when there is a status queue. After the assertion the id and the status
  are present, so the last case of the model is never taken.
\<close>

definition save :: "smapi \<Rightarrow> dataset \<Rightarrow> error option \<times> smapi" where
  "save s ds =
     (if \<not> save_assert ds then (Some AssertionError, s)
      else (case (ds_id ds, status ds) of
              (Some i, Some st) \<Rightarrow>
                let s1 = (if \<not> is_stored s ds then s\<lparr>db := (db s)(i \<mapsto> ds)\<rparr>
                          else s\<lparr>db := (db s)(i \<mapsto> ds)\<rparr>);
                    s2 = s1\<lparr>logger := logger s1 @ [''Inserted into dataset table: %s, %s'']\<rparr>;
                    s3 = s2\<lparr>es := es s2 @ [i]\<rparr>;
                    s4 = (case status_queue s3 of
                            None \<Rightarrow> s3
                          | Some q \<Rightarrow> s3\<lparr>status_queue := Some (q @ [(i, st)])\<rparr>)
                in (None, s4)
            | _ \<Rightarrow> (Some AssertionError, s)))"

text \<open>\<open>Dataset.set_status\<close>: the attribute is assigned before \<open>save\<close> runs.\<close>

definition set_status :: "smapi \<Rightarrow> dataset \<Rightarrow> string option \<Rightarrow> error option \<times> dataset \<times> smapi" where
  "set_status s ds st =
     (let ds' = ds\<lparr>status := st\<rparr>
      in case save s ds' of (e, s') \<Rightarrow> (e, ds', s'))"

text \<open>
  \<open>str.lower\<close>. A character is a code point below 256 (ASCII and Latin-1). Among
  these the capital letters are \<open>A\<close> to \<open>Z\<close> (65 to 90) and the code points 192 to
  222 other than the multiplication sign 215; each has its small letter 32 above it,
  and every other code point is left as it is.
\<close>

definition lower_char :: "char \<Rightarrow> char" where
  "lower_char c =
     (let n = of_char c :: nat
      in if (65 \<le> n \<and> n \<le> 90) \<or> (192 \<le> n \<and> n \<le> 222 \<and> n \<noteq> 215)
         then char_of (n + 32) else c)"

definition lower :: "string \<Rightarrow> string" where
  "lower s = map lower_char s"

definition json_of_str :: "string option \<Rightarrow> json" where
  "json_of_str x = (case x of None \<Rightarrow> JNull | Some s \<Rightarrow> JStr s)"

text \<open>\<^verbatim>\<open>d.get(k, {})\<close> on a JSON value: only a dict has \<open>get\<close>.\<close>

definition get_or_empty :: "json \<Rightarrow> string \<Rightarrow> error + json" where
  "get_or_empty v k = (case v of
      JDict d \<Rightarrow> Inr (case d k of None \<Rightarrow> JDict Map.empty | Some x \<Rightarrow> x)
    | _ \<Rightarrow> Inl AttributeError)"

definition get_or_none :: "json \<Rightarrow> string \<Rightarrow> error + json" where
  "get_or_none v k = (case v of
      JDict d \<Rightarrow> Inr (case d k of None \<Rightarrow> JNull | Some x \<Rightarrow> x)
    | _ \<Rightarrow> Inl AttributeError)"

text \<open>\<open>Dataset.to_queue_message\<close>\<close>

definition to_queue_message :: "dataset \<Rightarrow> error + dict" where
  "to_queue_message ds =
     (let msg = [''ds_id'' \<mapsto> json_of_str (ds_id ds),
                 ''ds_name'' \<mapsto> json_of_str (name ds),
                 ''input_path'' \<mapsto> json_of_str (input_path ds)]
      in case metadata ds of
           None \<Rightarrow> Inl AttributeError
         | Some md \<Rightarrow>
             (case get_or_empty (JDict md) ''Submitted_By'' of
                Inl e \<Rightarrow> Inl e
              | Inr submitted_by \<Rightarrow>
                  (case get_or_empty submitted_by ''Submitter'' of
                     Inl e \<Rightarrow> Inl e
                   | Inr submitter \<Rightarrow>
                       (case get_or_none submitter ''Email'' of
                          Inl e \<Rightarrow> Inl e
                        | Inr email \<Rightarrow>
                            if truthy email then
                              (case email of
                                 JStr a \<Rightarrow> Inr (msg(''user_email'' \<mapsto> JStr (lower a)))
                               | _ \<Rightarrow> Inl AttributeError)
                            else Inr msg))))"

text \<open>
  \<open>SMapiDatasetManager._post_sm_msg\<close>; \<open>kwargs\<close> are the extra keyword arguments,
  merged into the message by \<^verbatim>\<open>msg.update(kwargs)\<close>. Publishing on a manager that
  has no action queue is an attribute read on \<open>None\<close>.
\<close>

definition post_sm_msg ::
  "smapi \<Rightarrow> dataset \<Rightarrow> string \<Rightarrow> int \<Rightarrow> dict \<Rightarrow> error option \<times> dataset \<times> smapi" where
  "post_sm_msg s ds action priority kwargs =
     (case set_status s ds (Some QUEUED) of
        (Some e, ds', s') \<Rightarrow> (Some e, ds', s')
      | (None, ds', s') \<Rightarrow>
          if mode s' = ''queue'' then
            (case to_queue_message ds' of
               Inl e \<Rightarrow> (Some e, ds', s')
             | Inr msg0 \<Rightarrow>
                 let msg = (msg0(''action'' \<mapsto> JStr action)) ++ kwargs
                 in (case action_queue s' of
                       None \<Rightarrow> (Some AttributeError, ds', s')
                     | Some q \<Rightarrow>
                         (None, ds',
                          s'\<lparr>action_queue := Some (q @ [(msg, priority)]),
                             logger := logger s' @ [''New message posted to %s: %s'']\<rparr>)))
          else (None, ds', s'))"

text \<open>\<open>SMapiDatasetManager.add\<close>\<close>

definition add :: "smapi \<Rightarrow> dataset \<Rightarrow> bool \<Rightarrow> int \<Rightarrow> error option \<times> dataset \<times> smapi" where
  "add s ds del_first priority =
     (if \<not> del_first \<and> is_stored s ds then (Some DSIDExists, ds, s)
      else post_sm_msg s ds ADD priority [''del_first'' \<mapsto> JBool del_first])"

text \<open>\<open>SMapiDatasetManager.delete\<close>\<close>

definition delete :: "smapi \<Rightarrow> dataset \<Rightarrow> bool \<Rightarrow> error option \<times> dataset \<times> smapi" where
  "delete s ds del_raw_data = post_sm_msg s ds DELETE HIGH Map.empty"

text \<open>
  \<open>compare_configs\<close> applied to the \<open>config\<close> attributes, which may be \<open>None\<close>:
  \<^verbatim>\<open>None != None\<close> is false, and otherwise \<open>copy\<close> is read on \<open>None\<close>.
\<close>

definition compare_configs_attr :: "dict option \<Rightarrow> dict option \<Rightarrow> error + config_diff" where
  "compare_configs_attr old new = (case (old, new) of
      (Some a, Some b) \<Rightarrow> compare_configs a b
    | (None, None) \<Rightarrow> Inr EQUAL
    | _ \<Rightarrow> Inl AttributeError)"

text \<open>
  \<open>SMapiDatasetManager.update\<close>. \<^verbatim>\<open>old_ds.meta != ds.meta\<close> reads the attribute \<open>meta\<close>
  of both datasets, the old one first.
\<close>

definition update :: "smapi \<Rightarrow> dataset \<Rightarrow> int \<Rightarrow> error option \<times> dataset \<times> smapi" where
  "update s ds priority =
     (case load s (ds_id ds) of
        Inl e \<Rightarrow> (Some e, ds, s)
      | Inr old_ds \<Rightarrow>
          (case compare_configs_attr (config old_ds) (config ds) of
             Inl e \<Rightarrow> (Some e, ds, s)
           | Inr config_diff \<Rightarrow>
               (case getattr old_ds ''meta'' of
                  Inl e \<Rightarrow> (Some e, ds, s)
                | Inr old_meta \<Rightarrow>
                    (case getattr ds ''meta'' of
                       Inl e \<Rightarrow> (Some e, ds, s)
                     | Inr new_meta \<Rightarrow>
                         let meta_diff = (old_meta \<noteq> new_meta)
                         in if config_diff = INSTR_PARAMS_DIFF then
                              post_sm_msg s ds ADD priority [''del_first'' \<mapsto> JBool True]
                            else if config_diff = NEW_MOL_DB then
                              post_sm_msg s ds ADD priority Map.empty
                            else if config_diff = EQUAL \<and> meta_diff then
                              post_sm_msg s ds UPDATE HIGH Map.empty
                            else (None, ds,
                                  s\<lparr>logger := logger s @ [''Nothing to update: %s %s'']\<rparr>)))))"

text \<open>The action messages a call has published: those of the queue after it but not before.\<close>

definition published :: "smapi \<Rightarrow> (dict \<times> int) list" where
  "published s = (case action_queue s of None \<Rightarrow> [] | Some q \<Rightarrow> q)"

definition new_messages :: "smapi \<Rightarrow> smapi \<Rightarrow> (dict \<times> int) list" where
  "new_messages s s' = drop (length (published s)) (published s')"

section \<open>Concrete inputs\<close>

text \<open>
  The configurations of the specification's examples: instrument parameters \<open>A\<close> or
  \<open>B\<close>, and the databases \<open>X\<close> and \<open>Y\<close> at version 1.
\<close>

definition cfg_A_X :: dict where
  "cfg_A_X = [''instr'' \<mapsto> JStr ''A'',
     ''databases'' \<mapsto> JList [JDict [''name'' \<mapsto> JStr ''X'', ''version'' \<mapsto> JStr ''1'']]]"

definition cfg_A_XY :: dict where
  "cfg_A_XY = [''instr'' \<mapsto> JStr ''A'',
     ''databases'' \<mapsto> JList [JDict [''name'' \<mapsto> JStr ''X'', ''version'' \<mapsto> JStr ''1''],
                              JDict [''name'' \<mapsto> JStr ''Y'', ''version'' \<mapsto> JStr ''1'']]]"

definition cfg_B_X :: dict where
  "cfg_B_X = [''instr'' \<mapsto> JStr ''B'',
     ''databases'' \<mapsto> JList [JDict [''name'' \<mapsto> JStr ''X'', ''version'' \<mapsto> JStr ''1'']]]"

text \<open>A database selection that lacks its name.\<close>

definition cfg_nameless :: dict where
  "cfg_nameless = [''databases'' \<mapsto> JList [JDict [''version'' \<mapsto> JStr ''1'']]]"

text \<open>Peak rows: formula 1 with the adducts \<open>+H\<close> and \<open>+K\<close>, formula 2 with \<open>+H\<close>.\<close>

definition row_1_H :: peak_row where
  "row_1_H = (1, ''+H'', [100], [1])"

definition row_1_K :: peak_row where
  "row_1_K = (1, ''+K'', [138], [1])"

text \<open>A decoy row for the pair that \<open>row_1_H\<close> already has.\<close>

definition row_1_H_decoy :: peak_row where
  "row_1_H_decoy = (1, ''+H'', [101], [2])"

definition row_2_H :: peak_row where
  "row_2_H = (2, ''+H'', [200], [1])"

definition fresh_mol_db :: molecular_db where
  "fresh_mol_db = \<lparr> priv_id = 1, priv_job_id = Some 7, priv_sf_df = None \<rparr>"

text \<open>A complete dataset, and a manager in queue mode over an empty table.\<close>

definition meta_alice :: dict where
  "meta_alice = [''Submitted_By'' \<mapsto>
     JDict [''Submitter'' \<mapsto> JDict [''Email'' \<mapsto> JStr ''Alice@Lab.org'']]]"

definition ds_one :: dataset where
  "ds_one = \<lparr> ds_id = Some ''ds1'', name = Some ''one'', input_path = Some ''s3://in'',
     upload_dt = Some 0, metadata = Some meta_alice, config = Some cfg_A_X,
     status = Some NEW, is_public = Some True, mol_dbs = Some [1] \<rparr>"

definition api_empty :: smapi where
  "api_empty = \<lparr> db = Map.empty, es = [], status_queue = Some [], action_queue = Some [],
     mode = ''queue'', logger = [] \<rparr>"

text \<open>The same manager with \<open>ds_one\<close> stored, and one in local mode.\<close>

definition api_stored :: smapi where
  "api_stored = api_empty\<lparr>db := [''ds1'' \<mapsto> ds_one]\<rparr>"

definition api_local :: smapi where
  "api_local = api_empty\<lparr>mode := ''local''\<rparr>"

section \<open>Properties of compare_configs\<close>

lemma mol_dbs_to_set_list_wf:
  "list_all is_mol_db xs \<Longrightarrow> mol_dbs_to_set_list xs = Inr (set (List.map_filter name_version xs))"
proof (induction xs)
  case Nil
  show ?case by simp
next
  case (Cons x xs)
  from Cons.prems have x: "is_mol_db x" and xs: "list_all is_mol_db xs" by simp_all
  from x obtain d n where d: "x = JDict d" "d ''name'' = Some n" "hashable n"
    and v: "hashable (case d ''version'' of None \<Rightarrow> JNull | Some v \<Rightarrow> v)"
    by (auto simp: is_mol_db_def hashable_def split: json.splits option.splits)
  from d v Cons.IH[OF xs] show ?case
    by (simp add: mol_db_pair_def name_version_def)
qed

lemma mol_dbs_to_set_wf:
  "wf_config c \<Longrightarrow> mol_dbs_to_set (get_databases c) = Inr (db_pairs c)"
  by (auto simp: wf_config_def get_databases_def db_pairs_def mol_dbs_to_set_def
        mol_dbs_to_set_list_wf split: option.splits json.splits)

lemma classify_refl: "classify x x = EQUAL"
  by (simp add: classify_def)

lemma compare_configs_refl: "compare_configs x x = Inr EQUAL"
  by (simp add: compare_configs_def)

lemma compare_configs_wf:
  assumes "wf_config old" and "wf_config new"
  shows "compare_configs old new = Inr (classify old new)"
proof (cases "old = new")
  case True
  then show ?thesis by (simp add: compare_configs_refl classify_refl)
next
  case False
  then show ?thesis
    using mol_dbs_to_set_wf[OF assms(1)] mol_dbs_to_set_wf[OF assms(2)]
    by (auto simp: compare_configs_def classify_def Let_def)
qed

lemma mol_dbs_to_set_list_sound:
  "mol_dbs_to_set_list xs = Inr S \<Longrightarrow> S = set (List.map_filter name_version xs)"
proof (induction xs arbitrary: S)
  case Nil
  then show ?case by simp
next
  case (Cons x xs)
  from Cons.prems obtain n v S' where p: "mol_db_pair x = Inr (n, v)"
      "mol_dbs_to_set_list xs = Inr S'" "S = insert (n, v) S'"
    by (auto split: sum.splits if_splits)
  from p(1) have "name_version x = Some (n, v)"
    by (auto simp: mol_db_pair_def name_version_def split: json.splits option.splits)
  with Cons.IH[OF p(2)] p(3) show ?case by simp
qed

lemma mol_dbs_to_set_sound:
  "mol_dbs_to_set (get_databases c) = Inr S \<Longrightarrow> S = db_pairs c"
  by (auto simp: get_databases_def db_pairs_def mol_dbs_to_set_def
        dest: mol_dbs_to_set_list_sound split: option.splits json.splits if_splits)

lemma compare_configs_sound:
  assumes "compare_configs old new = Inr r"
  shows "r = classify old new"
proof (cases "old = new")
  case True
  with assms show ?thesis by (simp add: compare_configs_refl classify_refl)
next
  case False
  with assms show ?thesis
    by (auto simp: compare_configs_def classify_def Let_def
          dest!: mol_dbs_to_set_sound split: sum.splits if_splits)
qed

lemma heap_frame:
  assumes "old < length h" and "new < length h"
  shows "take (length h) (snd (compare_configs_heap h old new)) = h"
  using assms
  by (auto simp: compare_configs_heap_def dict_copy_def dict_pop_def Let_def
        split: sum.splits)

lemma heap_result:
  assumes "old < length h" and "new < length h"
  shows "fst (compare_configs_heap h old new) = compare_configs (h ! old) (h ! new)"
  using assms
  by (auto simp: compare_configs_heap_def compare_configs_def dict_copy_def dict_pop_def
        Let_def nth_append split: sum.splits)

lemma cfg_wf: "wf_config cfg_A_X" "wf_config cfg_A_XY" "wf_config cfg_B_X"
  by (simp_all add: wf_config_def cfg_A_X_def cfg_A_XY_def cfg_B_X_def is_mol_db_def hashable_def)

lemma classify_A_X_A_XY: "classify cfg_A_X cfg_A_XY = NEW_MOL_DB"
  by (simp add: classify_def cfg_A_X_def cfg_A_XY_def db_pairs_def name_version_def)

lemma classify_A_X_B_X: "classify cfg_A_X cfg_B_X = INSTR_PARAMS_DIFF"
  by (auto simp: classify_def cfg_A_X_def cfg_B_X_def dest: fun_cong[where x="''instr''"])

lemma classify_A_XY_A_X: "classify cfg_A_XY cfg_A_X = EQUAL"
  by (simp add: classify_def cfg_A_X_def cfg_A_XY_def db_pairs_def name_version_def)

text \<open>
  Where a selection has no name the two differ only in that the source raises: the
  set of pairs cannot be built, unless the configs are equal and it is never built.
\<close>

lemma compare_configs_nameless:
  "compare_configs cfg_nameless Map.empty = Inl KeyError"
  "compare_configs cfg_nameless cfg_nameless = Inr EQUAL"
  "\<not> wf_config cfg_nameless"
proof -
  have "cfg_nameless \<noteq> Map.empty"
    by (auto simp: cfg_nameless_def dest: fun_cong[where x="''databases''"])
  then show "compare_configs cfg_nameless Map.empty = Inl KeyError"
    by (simp add: compare_configs_def Let_def)
       (simp add: cfg_nameless_def get_databases_def mol_dbs_to_set_def mol_db_pair_def)
  show "compare_configs cfg_nameless cfg_nameless = Inr EQUAL" by (rule compare_configs_refl)
  show "\<not> wf_config cfg_nameless"
    by (simp add: wf_config_def cfg_nameless_def is_mol_db_def)
qed

text \<open>
  Claim C2. For configs whose \<open>databases\<close> entries are selections with a name,
  \<open>compare_configs\<close> returns what the reference definition \<open>classify\<close> gives: the
  remainders without \<open>databases\<close> are compared first, then the sets of (name, version)
  pairs. For any two configs whatsoever, a value it returns is the one \<open>classify\<close>
  gives. It is a function of the two key/value mappings, so the result is determined
  by them and does not depend on the order in which keys were inserted, and
  \<open>compare_configs x x\<close> is \<open>EQUAL\<close> for every config \<open>x\<close>.
\<close>

theorem compare_configs_refines_classify:
  "(wf_config old \<and> wf_config new \<longrightarrow> compare_configs old new = Inr (classify old new))
   \<and> (\<forall>r. compare_configs old new = Inr r \<longrightarrow> r = classify old new)
   \<and> compare_configs x x = Inr EQUAL"
  by (simp add: compare_configs_wf compare_configs_refl compare_configs_sound)

theorem compare_configs_refines_classify_witness:
  "wf_config cfg_A_X \<and> wf_config cfg_A_XY \<and> wf_config cfg_B_X
   \<and> compare_configs cfg_A_X cfg_A_XY = Inr NEW_MOL_DB
   \<and> compare_configs cfg_A_X cfg_B_X = Inr INSTR_PARAMS_DIFF
   \<and> compare_configs cfg_A_XY cfg_A_X = Inr EQUAL
   \<and> compare_configs cfg_A_X cfg_A_X = Inr EQUAL"
  using compare_configs_refines_classify[of cfg_A_X cfg_A_XY cfg_A_X]
    compare_configs_refines_classify[of cfg_A_X cfg_B_X cfg_A_X]
    compare_configs_refines_classify[of cfg_A_XY cfg_A_X cfg_A_X]
  by (simp add: cfg_wf classify_A_X_A_XY classify_A_X_B_X classify_A_XY_A_X)

lemma heap_run:
  "compare_configs_heap [cfg_A_X, cfg_A_XY] 0 1 =
     (Inr NEW_MOL_DB,
      [cfg_A_X, cfg_A_XY, cfg_A_X(''databases'' := None), cfg_A_XY(''databases'' := None)])"
  apply (simp add: compare_configs_heap_def dict_copy_def dict_pop_def Let_def)
  apply (simp add: cfg_A_X_def cfg_A_XY_def get_databases_def mol_dbs_to_set_def
      mol_db_pair_def hashable_def)
  apply (auto dest: fun_cong[where x="''databases''"])
  done

text \<open>
  Claim C10. \<open>compare_configs\<close> leaves both arguments unchanged: run on a store in
  which \<open>old\<close> and \<open>new\<close> are the addresses of two existing dicts (possibly the same
  one), it returns a store in which every dict that existed before, the two
  arguments among them, has the contents it had; only the two copies it allocates
  are stripped of \<open>databases\<close>. The value returned is that of \<open>compare_configs\<close> on
  the contents.
\<close>

theorem compare_configs_leaves_arguments:
  "old < length h \<and> new < length h \<longrightarrow>
     (case compare_configs_heap h old new of
        (r, h') \<Rightarrow> h' ! old = h ! old \<and> h' ! new = h ! new
                   \<and> take (length h) h' = h
                   \<and> r = compare_configs (h ! old) (h ! new))"
proof (intro impI, elim conjE)
  assume a: "old < length h" "new < length h"
  obtain r h' where e: "compare_configs_heap h old new = (r, h')"
    by (cases "compare_configs_heap h old new")
  from heap_frame[OF a] e have t: "take (length h) h' = h" by simp
  from heap_result[OF a] e have r: "r = compare_configs (h ! old) (h ! new)" by simp
  from t a have "h' ! old = h ! old" "h' ! new = h ! new"
    by (metis nth_take)+
  with t r e show "case compare_configs_heap h old new of
        (r, h') \<Rightarrow> h' ! old = h ! old \<and> h' ! new = h ! new
                   \<and> take (length h) h' = h
                   \<and> r = compare_configs (h ! old) (h ! new)" by simp
qed

theorem compare_configs_leaves_arguments_witness:
  "(0 :: nat) < length [cfg_A_X, cfg_A_XY] \<and> (1 :: nat) < length [cfg_A_X, cfg_A_XY]
   \<and> snd (compare_configs_heap [cfg_A_X, cfg_A_XY] 0 1) ! 0 = cfg_A_X
   \<and> snd (compare_configs_heap [cfg_A_X, cfg_A_XY] 0 1) ! 1 = cfg_A_XY
   \<and> length (snd (compare_configs_heap [cfg_A_X, cfg_A_XY] 0 1)) = 4
   \<and> fst (compare_configs_heap [cfg_A_X, cfg_A_XY] 0 1) = Inr NEW_MOL_DB"
proof -
  have l: "(0 :: nat) < length [cfg_A_X, cfg_A_XY] \<and> (1 :: nat) < length [cfg_A_X, cfg_A_XY]"
    by simp
  from compare_configs_leaves_arguments[of 0 "[cfg_A_X, cfg_A_XY]" 1] l
  have "snd (compare_configs_heap [cfg_A_X, cfg_A_XY] 0 1) ! 0 = cfg_A_X
      \<and> snd (compare_configs_heap [cfg_A_X, cfg_A_XY] 0 1) ! 1 = cfg_A_XY"
    by (simp split: prod.splits)
  moreover have "length (snd (compare_configs_heap [cfg_A_X, cfg_A_XY] 0 1)) = 4
      \<and> fst (compare_configs_heap [cfg_A_X, cfg_A_XY] 0 1) = Inr NEW_MOL_DB"
    unfolding heap_run by simp
  ultimately show ?thesis using l by blast
qed

section \<open>Properties of the peak table\<close>

lemma distinct_sort_key_iff: "distinct (map f (sort_key f xs)) = distinct (map f xs)"
proof -
  have "mset (map f (sort_key f xs)) = mset (map f xs)" by simp
  then show ?thesis by (rule mset_eq_imp_distinct_iff)
qed

lemma uniq_count_iff:
  "(length (remdups (map f xs)) = length xs) = distinct (map f xs)"
proof
  assume "length (remdups (map f xs)) = length xs"
  then have "card (set (map f xs)) = length (map f xs)"
    by (simp add: length_remdups_card_conv)
  then show "distinct (map f xs)" by (rule card_distinct)
next
  assume "distinct (map f xs)"
  then have "length (remdups (map f xs)) = length (map f xs)"
    by (simp only: distinct_remdups_id)
  then show "length (remdups (map f xs)) = length xs" by (simp only: length_map)
qed

lemma check_formula_uniqueness_iff:
  "(check_formula_uniqueness df = Inr ()) = distinct (map sf_adduct df)"
  "(check_formula_uniqueness df = Inl AssertionError) = (\<not> distinct (map sf_adduct df))"
  by (simp_all add: check_formula_uniqueness_def Let_def uniq_count_iff)

lemma sf_df_fresh:
  assumes "priv_sf_df self = None" "t \<noteq> []" "d \<noteq> []"
  shows "sf_df t d self =
     (if distinct (map sf_adduct (t @ d)) then Inr (sort_key sf_adduct (t @ d)) else Inl AssertionError,
      self\<lparr>priv_sf_df := Some (sort_key sf_adduct (t @ d))\<rparr>)"
proof (cases "distinct (map sf_adduct (t @ d))")
  case True
  then have "check_formula_uniqueness (sort_key sf_adduct (t @ d)) = Inr ()"
    by (simp only: check_formula_uniqueness_iff distinct_sort_key_iff)
  with assms True show ?thesis by (simp add: sf_df_def Let_def)
next
  case False
  then have "check_formula_uniqueness (sort_key sf_adduct (t @ d)) = Inl AssertionError"
    by (simp only: check_formula_uniqueness_iff distinct_sort_key_iff simp_thms)
  with assms False show ?thesis by (simp add: sf_df_def Let_def)
qed

lemma sf_df_empty:
  assumes "priv_sf_df self = None" "t = [] \<or> d = []"
  shows "sf_df t d self = (Inl AssertionError, self)"
  using assms by (auto simp: sf_df_def)

text \<open>
  The access that assembles the table, on an instance that holds no cached table (as
  \<open>__init__\<close> leaves it): a table that is returned has as many distinct
  \<open>(sf_id, adduct)\<close> pairs as rows, holds exactly the merged target and decoy rows
  and is sorted by the pair; and if a pair occurs twice among the merged rows the
  access raises AssertionError.
\<close>

lemma sf_df_first_access:
  assumes "priv_sf_df self = None"
  shows "(\<forall>df self'. sf_df t d self = (Inr df, self') \<longrightarrow>
            card (set (map sf_adduct df)) = length df \<and> mset df = mset (t @ d)
            \<and> sorted (map sf_adduct df))
       \<and> (\<not> distinct (map sf_adduct (t @ d)) \<longrightarrow>
            (\<exists>self'. sf_df t d self = (Inl AssertionError, self')))"
proof (cases "t = [] \<or> d = []")
  case True
  with sf_df_empty[OF assms True] show ?thesis by simp
next
  case False
  then have ne: "t \<noteq> []" "d \<noteq> []" by simp_all
  note e = sf_df_fresh[OF assms ne]
  show ?thesis
  proof (cases "distinct (map sf_adduct (t @ d))")
    case True
    then have "distinct (map sf_adduct (sort_key sf_adduct (t @ d)))"
      by (simp only: distinct_sort_key_iff)
    then have "card (set (map sf_adduct (sort_key sf_adduct (t @ d)))) = length (sort_key sf_adduct (t @ d))"
      using distinct_card by fastforce
    with e True show ?thesis by (auto simp del: map_append)
  next
    case False
    with e show ?thesis by simp
  qed
qed

lemma sort_rows: "sort_key sf_adduct [row_2_H, row_1_K, row_1_H] = [row_1_H, row_1_K, row_2_H]"
  by (simp add: sf_adduct_def row_1_H_def row_1_K_def row_2_H_def less_eq_prod_def less_prod_def)

lemma sf_df_first_access_example:
  "priv_sf_df fresh_mol_db = None
   \<and> sf_df [row_2_H, row_1_K] [row_1_H] fresh_mol_db =
       (Inr [row_1_H, row_1_K, row_2_H], fresh_mol_db\<lparr>priv_sf_df := Some [row_1_H, row_1_K, row_2_H]\<rparr>)
   \<and> card (set (map sf_adduct [row_1_H, row_1_K, row_2_H])) = 3
   \<and> \<not> distinct (map sf_adduct ([row_1_H, row_1_K] @ [row_1_H]))
   \<and> (\<exists>self'. sf_df [row_1_H, row_1_K] [row_1_H] fresh_mol_db = (Inl AssertionError, self'))"
proof -
  have f: "priv_sf_df fresh_mol_db = None" by (simp add: fresh_mol_db_def)
  have d: "distinct (map sf_adduct ([row_2_H, row_1_K] @ [row_1_H]))"
    by (simp add: sf_adduct_def row_1_H_def row_1_K_def row_2_H_def)
  have r: "sf_df [row_2_H, row_1_K] [row_1_H] fresh_mol_db =
       (Inr [row_1_H, row_1_K, row_2_H], fresh_mol_db\<lparr>priv_sf_df := Some [row_1_H, row_1_K, row_2_H]\<rparr>)"
    using sf_df_fresh[OF f, of "[row_2_H, row_1_K]" "[row_1_H]"] d sort_rows by simp
  have n: "\<not> distinct (map sf_adduct ([row_1_H, row_1_K] @ [row_1_H]))"
    by (simp add: sf_adduct_def row_1_H_def row_1_K_def)
  from sf_df_first_access[OF f, of "[row_2_H, row_1_K]" "[row_1_H]"] r
  have "card (set (map sf_adduct [row_1_H, row_1_K, row_2_H])) = length [row_1_H, row_1_K, row_2_H]"
    by blast
  then have c: "card (set (map sf_adduct [row_1_H, row_1_K, row_2_H])) = 3" by simp
  from sf_df_first_access[OF f, of "[row_1_H, row_1_K]" "[row_1_H]"] n
  have x: "\<exists>self'. sf_df [row_1_H, row_1_K] [row_1_H] fresh_mol_db = (Inl AssertionError, self')"
    by blast
  from f r c n x show ?thesis by blast
qed

text \<open>
  Claim C7. When the table is assembled and the target query or the decoy query
  returns no rows, \<open>sf_df\<close> raises AssertionError: no table is returned, in particular
  not the rows of the other query alone, and none is cached.
\<close>

theorem sf_df_empty_query_fails:
  assumes "priv_sf_df self = None" and "t = [] \<or> d = []"
  shows "sf_df t d self = (Inl AssertionError, self)"
  using assms by (rule sf_df_empty)

theorem sf_df_empty_query_fails_witness:
  "priv_sf_df fresh_mol_db = None
   \<and> sf_df [row_1_H] [] fresh_mol_db = (Inl AssertionError, fresh_mol_db)
   \<and> sf_df [] [row_1_H] fresh_mol_db = (Inl AssertionError, fresh_mol_db)"
proof -
  have f: "priv_sf_df fresh_mol_db = None" by (simp add: fresh_mol_db_def)
  from f sf_df_empty_query_fails[OF f, of "[row_1_H]" "[]"] sf_df_empty_query_fails[OF f, of "[]" "[row_1_H]"]
  show ?thesis by simp
qed

text \<open>
  Claim C3 says that every assembled peak table has as many distinct
  \<open>(sf_id, adduct)\<close> pairs as rows, and that a duplicated pair makes the assembly
  abort and return no table. The source stores the sorted table in \<open>_sf_df\<close> before
  \<open>_check_formula_uniqueness\<close> runs. With target rows for the pairs \<open>(1, +H)\<close> and
  \<open>(2, +H)\<close> and a decoy row for \<open>(1, +H)\<close>, the first access raises AssertionError
  and leaves the rejected table on the instance; the next access on the same
  instance returns it: three rows, two distinct pairs.
\<close>

theorem sf_df_returns_rejected_table:
  "sf_df [row_1_H, row_2_H] [row_1_H_decoy] fresh_mol_db =
     (Inl AssertionError,
      fresh_mol_db\<lparr>priv_sf_df := Some [row_1_H, row_1_H_decoy, row_2_H]\<rparr>)
   \<and> sf_df [row_1_H, row_2_H] [row_1_H_decoy]
         (fresh_mol_db\<lparr>priv_sf_df := Some [row_1_H, row_1_H_decoy, row_2_H]\<rparr>) =
       (Inr [row_1_H, row_1_H_decoy, row_2_H],
        fresh_mol_db\<lparr>priv_sf_df := Some [row_1_H, row_1_H_decoy, row_2_H]\<rparr>)
   \<and> card (set (map sf_adduct [row_1_H, row_1_H_decoy, row_2_H])) = 2
   \<and> length [row_1_H, row_1_H_decoy, row_2_H] = 3"
  by (simp add: sf_df_def fresh_mol_db_def check_formula_uniqueness_def Let_def sf_adduct_def
      row_1_H_def row_1_H_decoy_def row_2_H_def less_eq_prod_def less_prod_def)

section \<open>Properties of the effective zoom\<close>

lemma py_round_cases:
  obtains f where "of_int f \<le> x" "x < of_int f + 1"
    "py_round x = (if x - of_int f < 1 / 2 then f
                   else if 1 / 2 < x - of_int f then f + 1
                   else if even f then f else f + 1)"
proof -
  have "of_int \<lfloor>x\<rfloor> \<le> x" and "x < of_int \<lfloor>x\<rfloor> + 1" by linarith+
  moreover have "py_round x = (if x - of_int \<lfloor>x\<rfloor> < 1 / 2 then \<lfloor>x\<rfloor>
                   else if 1 / 2 < x - of_int \<lfloor>x\<rfloor> then \<lfloor>x\<rfloor> + 1
                   else if even \<lfloor>x\<rfloor> then \<lfloor>x\<rfloor> else \<lfloor>x\<rfloor> + 1)"
    by (simp only: py_round_def Let_def)
  ultimately show ?thesis by (rule that)
qed

lemma py_round_nearest:
  "\<bar>of_int (py_round x) - x\<bar> \<le> 1 / 2"
proof -
  obtain f where f: "of_int f \<le> x" "x < of_int f + 1"
    "py_round x = (if x - of_int f < 1 / 2 then f
                   else if 1 / 2 < x - of_int f then f + 1
                   else if even f then f else f + 1)"
    by (rule py_round_cases)
  from f(1,2) show ?thesis unfolding f(3) by (auto simp: abs_if)
qed

lemma py_round_tie_even:
  assumes "\<bar>of_int (py_round x) - x\<bar> = 1 / 2"
  shows "even (py_round x)"
proof -
  obtain f where f: "of_int f \<le> x" "x < of_int f + 1"
    "py_round x = (if x - of_int f < 1 / 2 then f
                   else if 1 / 2 < x - of_int f then f + 1
                   else if even f then f else f + 1)"
    by (rule py_round_cases)
  from assms f(1,2) show ?thesis unfolding f(3) by (auto simp: abs_if split: if_splits)
qed

lemma py_round_eq:
  assumes "of_int f \<le> x" "x < of_int f + 1"
  shows "py_round x = (if x - of_int f < 1 / 2 then f
                   else if 1 / 2 < x - of_int f then f + 1
                   else if even f then f else f + 1)"
proof -
  from assms have "\<lfloor>x\<rfloor> = f" by linarith
  then show ?thesis by (simp only: py_round_def Let_def)
qed

lemma py_round_half: "py_round (1 / 2) = 0"
  by (simp add: py_round_eq[where f=0])

lemma py_round_one: "py_round 1 = 1"
  by (simp add: py_round_eq[where f=1])

text \<open>Powers of two, and the exponent found by \<open>floor_log2\<close>.\<close>

lemma pow2_powi: "pow2 e = 2 powi e"
  by (simp add: pow2_def power_int_def power_one_over inverse_eq_divide)

lemma pow2_pos [simp]: "0 < pow2 e"
  by (simp add: pow2_powi)

lemma pow2_nonneg [simp]: "0 \<le> pow2 e"
  using pow2_pos[of e] by (rule less_imp_le)

lemma pow2_not_le0 [simp]: "\<not> pow2 e \<le> 0"
  using pow2_pos[of e] by (simp only: not_le)

lemma pow2_neq0 [simp]: "pow2 e \<noteq> 0"
proof
  assume "pow2 e = 0"
  with pow2_pos[of e] show False by (simp only: less_irrefl)
qed

lemma pow2_add: "pow2 (a + b) = pow2 a * pow2 b"
  by (simp add: pow2_powi power_int_add)

lemma pow2_strict_mono: "a < b \<Longrightarrow> pow2 a < pow2 b"
  by (simp add: pow2_powi power_int_strict_increasing)

lemma pow2_less_iff [simp]: "(pow2 a < pow2 b) = (a < b)"
proof
  assume l: "pow2 a < pow2 b"
  show "a < b"
  proof (rule ccontr)
    assume "\<not> a < b"
    then have "b = a \<or> b < a" by auto
    then have "pow2 b \<le> pow2 a" using pow2_strict_mono[of b a] by auto
    with l show False by simp
  qed
qed (rule pow2_strict_mono)

lemma pow2_le_iff [simp]: "(pow2 a \<le> pow2 b) = (a \<le> b)"
  using pow2_less_iff[of b a] by (simp only: not_less[symmetric])

lemma pow2_nat: "0 \<le> e \<Longrightarrow> pow2 e = 2 ^ nat e"
  by (simp add: pow2_def)

lemma bitlen_pow2_bounds:
  assumes "0 < p"
  shows "pow2 (bitlen p - 1) \<le> of_int p" and "of_int p < pow2 (bitlen p)"
proof -
  from bitlen_bounds[OF assms] have a: "2 ^ nat (bitlen p - 1) \<le> p" and b: "p < 2 ^ nat (bitlen p)"
    by simp_all
  from assms have g: "1 \<le> bitlen p" by (simp add: bitlen_alt_def)
  from a have "(of_int (2 ^ nat (bitlen p - 1)) :: rat) \<le> of_int p" by (simp only: of_int_le_iff)
  with g show "pow2 (bitlen p - 1) \<le> of_int p" by (simp add: pow2_nat)
  from b have "(of_int p :: rat) < of_int (2 ^ nat (bitlen p))" by (simp only: of_int_less_iff)
  with g show "of_int p < pow2 (bitlen p)" by (simp add: pow2_nat)
qed

lemma floor_log2_bounds:
  assumes "0 < x"
  shows "pow2 (floor_log2 x) \<le> x" and "x < pow2 (floor_log2 x + 1)"
proof -
  obtain p q where pq: "quotient_of x = (p, q)" by (cases "quotient_of x")
  then have q: "0 < q" and x: "x = of_int p / of_int q"
    by (simp_all add: quotient_of_denom_pos quotient_of_div)
  from assms x q have p: "0 < p" by (simp add: zero_less_divide_iff)
  define k where "k = bitlen p - bitlen q"
  have up: "x < pow2 (k + 1)"
  proof -
    have "of_int p < pow2 (bitlen p)" using p by (rule bitlen_pow2_bounds)
    also have "pow2 (bitlen p) = pow2 (k + 1) * pow2 (bitlen q - 1)"
      by (simp add: k_def pow2_add[symmetric])
    also have "\<dots> \<le> pow2 (k + 1) * of_int q"
      using bitlen_pow2_bounds(1)[OF q] by simp
    finally show ?thesis using q by (simp add: x pos_divide_less_eq)
  qed
  have lo: "pow2 (k - 1) \<le> x"
  proof -
    have "pow2 (k - 1) * of_int q \<le> pow2 (k - 1) * pow2 (bitlen q)"
      using bitlen_pow2_bounds(2)[OF q] by simp
    also have "\<dots> = pow2 (bitlen p - 1)" by (simp add: k_def pow2_add[symmetric])
    also have "\<dots> \<le> of_int p" using p by (rule bitlen_pow2_bounds)
    finally show ?thesis using q by (simp add: x pos_le_divide_eq)
  qed
  have f: "floor_log2 x = (if pow2 k \<le> x then k else k - 1)"
    by (simp add: floor_log2_def pq k_def Let_def)
  from up lo f show "pow2 (floor_log2 x) \<le> x" by auto
  from up lo f show "x < pow2 (floor_log2 x + 1)" by (auto simp: not_le)
qed

lemma floor_log2_eqI:
  assumes "pow2 k \<le> x" and "x < pow2 (k + 1)"
  shows "floor_log2 x = k"
proof -
  have "0 < pow2 k" by simp
  then have x: "0 < x" using assms(1) by (rule less_le_trans)
  note b = floor_log2_bounds[OF x]
  from b(1) assms(2) have "pow2 (floor_log2 x) < pow2 (k + 1)" by (rule le_less_trans)
  moreover from assms(1) b(2) have "pow2 k < pow2 (floor_log2 x + 1)" by (rule le_less_trans)
  ultimately show ?thesis by simp
qed

lemma float64_round_eqI:
  assumes "pow2 k \<le> \<bar>x\<bar>" and "\<bar>x\<bar> < pow2 (k + 1)"
  shows "float64_round x =
     of_int (py_round (x / pow2 (max (k - 52) (- 1074)))) * pow2 (max (k - 52) (- 1074))"
proof -
  from assms have "floor_log2 \<bar>x\<bar> = k" by (rule floor_log2_eqI)
  moreover have "x \<noteq> 0"
  proof
    assume "x = 0"
    with assms(1) have "pow2 k \<le> 0" by simp
    with pow2_pos[of k] show False by simp
  qed
  ultimately show ?thesis by (simp add: float64_round_def Let_def)
qed

text \<open>
  \<open>float64_round\<close> gives a multiple of the spacing that is nearest to its argument, and
  leaves a number with a significand of 53 bits as it is.
\<close>

lemma float64_round_nearest:
  assumes "pow2 k \<le> \<bar>x\<bar>" and "\<bar>x\<bar> < pow2 (k + 1)"
  shows "\<bar>float64_round x - x\<bar> \<le> pow2 (max (k - 52) (- 1074)) / 2"
proof -
  let ?s = "pow2 (max (k - 52) (- 1074))"
  have e: "float64_round x = of_int (py_round (x / ?s)) * ?s"
    using assms by (rule float64_round_eqI)
  have "float64_round x - x = (of_int (py_round (x / ?s)) - x / ?s) * ?s"
    by (simp add: e left_diff_distrib)
  then have "\<bar>float64_round x - x\<bar> = \<bar>of_int (py_round (x / ?s)) - x / ?s\<bar> * ?s"
    by (simp add: abs_mult)
  also have "\<dots> \<le> (1 / 2) * ?s"
    using py_round_nearest[of "x / ?s"] by (intro mult_right_mono) simp_all
  finally show ?thesis by simp
qed

lemma py_round_of_int [simp]: "py_round (of_int n) = n"
  by (simp add: py_round_def Let_def)

lemma float64_round_exact:
  assumes "\<bar>m\<bar> < 2 ^ 53" and "- 1074 \<le> e"
  shows "float64_round (of_int m * pow2 e) = of_int m * pow2 e"
proof (cases "m = 0")
  case True
  then show ?thesis by (simp add: float64_round_def)
next
  case False
  let ?x = "of_int m * pow2 e :: rat"
  from False have x0: "?x \<noteq> 0" by simp
  then have ax: "0 < \<bar>?x\<bar>" by simp
  define E where "E = max (floor_log2 \<bar>?x\<bar> - 52) (- 1074)"
  have "\<bar>?x\<bar> = of_int \<bar>m\<bar> * pow2 e" by (simp add: abs_mult)
  also have "\<dots> < of_int (2 ^ 53) * pow2 e"
    using assms(1) by (simp only: mult_less_cancel_right_pos pow2_pos of_int_less_iff)
  also have "\<dots> = pow2 (53 + e)" by (simp add: pow2_add pow2_nat)
  finally have "\<bar>?x\<bar> < pow2 (53 + e)" .
  with floor_log2_bounds(1)[OF ax] have "pow2 (floor_log2 \<bar>?x\<bar>) < pow2 (53 + e)"
    by (rule le_less_trans)
  then have "floor_log2 \<bar>?x\<bar> - 52 \<le> e" by simp
  with assms(2) have Ee: "E \<le> e" by (simp add: E_def)
  have "pow2 e = pow2 (e - E) * pow2 E" by (simp add: pow2_add[symmetric])
  also have "pow2 (e - E) = of_int (2 ^ nat (e - E))" using Ee by (simp add: pow2_nat)
  finally have "?x / pow2 E = of_int (m * 2 ^ nat (e - E))" by simp
  then have "of_int (py_round (?x / pow2 E)) * pow2 E = ?x"
    by (simp only: py_round_of_int) (metis \<open>?x / pow2 E = of_int (m * 2 ^ nat (e - E))\<close> nonzero_eq_divide_eq pow2_pos less_irrefl)
  with x0 show ?thesis by (simp add: float64_round_def Let_def E_def)
qed

lemma float64_round_of_int:
  "\<bar>n\<bar> < 2 ^ 53 \<Longrightarrow> float64_round (of_int n) = of_int n"
  using float64_round_exact[of n 0] by (simp add: pow2_def)

lemma not_overflows: "\<bar>r\<bar> < pow2 k \<Longrightarrow> k \<le> 1024 \<Longrightarrow> \<not> overflows r"
proof -
  assume a: "\<bar>r\<bar> < pow2 k" and b: "k \<le> 1024"
  from b have "pow2 k \<le> pow2 1024" by simp
  with a have "\<bar>r\<bar> < pow2 1024" by (rule less_le_trans)
  then show ?thesis by (simp add: overflows_def)
qed

lemma small_not_overflows: "\<bar>r\<bar> < 65536 \<Longrightarrow> \<not> overflows r"
  by (rule not_overflows[where k=16]) (simp_all add: pow2_def)

lemma float64_round_half: "float64_round (1 / 2) = 1 / 2"
  using float64_round_exact[of 1 "- 1"] by (simp add: pow2_def)

lemma float64_round_numerals:
  "float64_round 1 = 1" "float64_round 0 = 0" "float64_round 2000 = 2000" "float64_round 500 = 500"
  "float64_round 1000 = 1000" "float64_round 880 = 880" "float64_round 400 = 400"
  "float64_round 11 = 11"
  using float64_round_of_int[of 1] float64_round_of_int[of 2000] float64_round_of_int[of 500]
    float64_round_of_int[of 1000] float64_round_of_int[of 880] float64_round_of_int[of 400]
    float64_round_of_int[of 11]
  by (simp_all add: float64_round_def)

lemma zoom_1000_500: "transform_scan_zoom 1 (1000, 500) = Inr 1"
  by (simp add: transform_scan_zoom_def VIEWPORT_WIDTH_def VIEWPORT_HEIGHT_def Let_def
      float64_round_numerals small_not_overflows py_round_one)

lemma zoom_2000_500: "transform_scan_zoom 1 (2000, 500) = Inr 0"
  by (simp add: transform_scan_zoom_def VIEWPORT_WIDTH_def VIEWPORT_HEIGHT_def Let_def
      float64_round_numerals float64_round_half small_not_overflows py_round_half)

text \<open>
  Floating point matters: for an 880 x 400 image at zoom 11 the quotient 1000 / 880
  is rounded up, the product comes out just above 12.5 and the effective zoom is 13,
  where exact arithmetic would give the tie 12.5 and 12.
\<close>

lemma float64_round_25_22:
  "float64_round (25 / 22) = 5117726849284655 / 4503599627370496"
proof -
  have "float64_round (25 / 22) =
      of_int (py_round ((25 / 22) / pow2 (max (0 - 52) (- 1074)))) * pow2 (max (0 - 52) (- 1074))"
    by (rule float64_round_eqI) (simp_all add: pow2_def)
  moreover have "py_round ((25 / 22) / pow2 (- 52)) = 5117726849284655"
    by (simp add: pow2_def py_round_eq[where f=5117726849284654])
  ultimately show ?thesis by (simp add: pow2_def)
qed

lemma float64_round_5_4: "float64_round (5 / 4) = 5 / 4"
  using float64_round_exact[of 5 "- 2"] by (simp add: pow2_def)

lemma float64_round_product:
  "float64_round (56294995342131205 / 4503599627370496) =
     7036874417766401 / 562949953421312"
proof -
  have "float64_round (56294995342131205 / 4503599627370496) =
      of_int (py_round ((56294995342131205 / 4503599627370496) / pow2 (max (3 - 52) (- 1074))))
        * pow2 (max (3 - 52) (- 1074))"
    by (rule float64_round_eqI) (simp_all add: pow2_def)
  moreover have "py_round ((56294995342131205 / 4503599627370496) / pow2 (- 49)) =
      7036874417766401"
    by (simp add: pow2_def py_round_eq[where f=7036874417766400])
  ultimately show ?thesis by (simp add: pow2_def)
qed

lemma zoom_880_400: "transform_scan_zoom 11 (880, 400) = Inr 13"
proof -
  have m: "min (float64_round (25 / 22)) (float64_round (5 / 4)) =
      5117726849284655 / 4503599627370496"
    by (simp add: float64_round_25_22 float64_round_5_4)
  have p: "py_round (7036874417766401 / 562949953421312) = 13"
    by (simp add: py_round_eq[where f=12])
  have o: "\<not> overflows (7036874417766401 / 562949953421312)"
    by (rule small_not_overflows) simp
  show ?thesis
    by (simp add: transform_scan_zoom_def VIEWPORT_WIDTH_def VIEWPORT_HEIGHT_def Let_def
        float64_round_numerals small_not_overflows m float64_round_product p o)
qed

lemma exact_880_400: "py_round (11 * min (1000 / 880) (500 / 400)) = 12"
  by (simp add: py_round_eq[where f=12])

text \<open>
  Claim C6 says that the effective zoom is \<open>round(z * min(1000 / width, 500 / height))\<close>,
  which is 1 for a 1000 x 500 image at zoom 1 and \<open>round(0.5) = 1\<close> for a 2000 x 500
  image at zoom 1; the comment in the source calls zoom 1 what the user sees by
  default. For the 1000 x 500 image the source gives 1. For the 2000 x 500 image
  Python's \<open>round\<close> takes the tie 0.5 to the even neighbour and the effective zoom
  is 0: the first two columns of the transform are then divided by zero, leaving
  values that are not finite, and the canvas asked of the warp is 0 x 0.
\<close>

theorem transform_scan_zoom_2000_500:
  "transform_scan_zoom 1 (1000, 500) = Inr 1
   \<and> transform_scan_zoom 1 (2000, 500) = Inr 0
   \<and> transform_scan [[1, 0, 0], [0, 1, 0], [0, 0, 1]] (2000, 500) 1 =
       Inr ((0, 0), [None, None, Some 0, None, None, Some 0, None, None])"
  by (simp add: transform_scan_def zoom_1000_500 zoom_2000_500 Let_def np_div_def float64_def
      float64_round_numerals small_not_overflows)

section \<open>Properties of Dataset.save and of the dispatcher\<close>

lemma save_fail: "\<not> save_assert ds \<Longrightarrow> save s ds = (Some AssertionError, s)"
  by (simp add: save_def)

lemma save_assert_iff:
  "save_assert ds =
     (\<exists>i n p t c st b m.
        ds_id ds = Some i \<and> i \<noteq> [] \<and> name ds = Some n \<and> n \<noteq> []
        \<and> input_path ds = Some p \<and> p \<noteq> [] \<and> upload_dt ds = Some t
        \<and> config ds = Some c \<and> c \<noteq> Map.empty \<and> status ds = Some st \<and> st \<noteq> []
        \<and> is_public ds = Some b \<and> mol_dbs ds = Some m \<and> m \<noteq> [])"
  by (auto simp: save_assert_def truthy_str_def truthy_dict_def truthy_ids_def
        split: option.splits)

lemma save_ok:
  assumes "save_assert ds"
  obtains i st where "ds_id ds = Some i" "status ds = Some st"
    "save s ds = (None, s\<lparr>db := (db s)(i \<mapsto> ds),
        es := es s @ [i],
        status_queue := map_option (\<lambda>q. q @ [(i, st)]) (status_queue s),
        logger := logger s @ [''Inserted into dataset table: %s, %s'']\<rparr>)"
proof -
  from assms obtain i st where a: "ds_id ds = Some i" "status ds = Some st"
    by (auto simp: save_assert_iff)
  with assms have "save s ds = (None, s\<lparr>db := (db s)(i \<mapsto> ds),
        es := es s @ [i],
        status_queue := map_option (\<lambda>q. q @ [(i, st)]) (status_queue s),
        logger := logger s @ [''Inserted into dataset table: %s, %s'']\<rparr>)"
    by (simp add: save_def Let_def split: option.splits)
  with a show ?thesis by (rule that)
qed

lemma save_ok_fst: "save_assert ds \<Longrightarrow> fst (save s ds) = None"
  by (erule save_ok[where s=s]) simp

lemma to_queue_message_status [simp]:
  "to_queue_message (ds\<lparr>status := x\<rparr>) = to_queue_message ds"
  by (simp add: to_queue_message_def)

lemma post_sm_msg_fail:
  "\<not> save_assert (ds\<lparr>status := Some QUEUED\<rparr>) \<Longrightarrow>
     post_sm_msg s ds a p kw = (Some AssertionError, ds\<lparr>status := Some QUEUED\<rparr>, s)"
  by (simp add: post_sm_msg_def set_status_def Let_def save_fail)

lemma post_sm_msg_ok:
  assumes "save_assert (ds\<lparr>status := Some QUEUED\<rparr>)"
  obtains i s1 where "ds_id ds = Some i"
    "s1 = s\<lparr>db := (db s)(i \<mapsto> ds\<lparr>status := Some QUEUED\<rparr>),
        es := es s @ [i],
        status_queue := map_option (\<lambda>q. q @ [(i, QUEUED)]) (status_queue s),
        logger := logger s @ [''Inserted into dataset table: %s, %s'']\<rparr>"
    "post_sm_msg s ds a p kw =
       (if mode s = ''queue'' then
          (case to_queue_message ds of
             Inl e \<Rightarrow> (Some e, ds\<lparr>status := Some QUEUED\<rparr>, s1)
           | Inr msg0 \<Rightarrow>
               (case action_queue s of
                  None \<Rightarrow> (Some AttributeError, ds\<lparr>status := Some QUEUED\<rparr>, s1)
                | Some q \<Rightarrow>
                    (None, ds\<lparr>status := Some QUEUED\<rparr>,
                     s1\<lparr>action_queue := Some (q @ [((msg0(''action'' \<mapsto> JStr a)) ++ kw, p)]),
                        logger := logger s1 @ [''New message posted to %s: %s'']\<rparr>)))
        else (None, ds\<lparr>status := Some QUEUED\<rparr>, s1))"
proof -
  from assms obtain i st where a: "ds_id (ds\<lparr>status := Some QUEUED\<rparr>) = Some i"
      "status (ds\<lparr>status := Some QUEUED\<rparr>) = Some st"
      "save s (ds\<lparr>status := Some QUEUED\<rparr>) = (None, s\<lparr>db := (db s)(i \<mapsto> ds\<lparr>status := Some QUEUED\<rparr>),
        es := es s @ [i],
        status_queue := map_option (\<lambda>q. q @ [(i, st)]) (status_queue s),
        logger := logger s @ [''Inserted into dataset table: %s, %s'']\<rparr>)"
    by (rule save_ok)
  from a(2) have st: "st = QUEUED" by simp
  define s1 where "s1 = s\<lparr>db := (db s)(i \<mapsto> ds\<lparr>status := Some QUEUED\<rparr>),
        es := es s @ [i],
        status_queue := map_option (\<lambda>q. q @ [(i, QUEUED)]) (status_queue s),
        logger := logger s @ [''Inserted into dataset table: %s, %s'']\<rparr>"
  have m: "mode s1 = mode s" "action_queue s1 = action_queue s" by (simp_all add: s1_def)
  from a(3) st have sv: "save s (ds\<lparr>status := Some QUEUED\<rparr>) = (None, s1)" by (simp add: s1_def)
  have "post_sm_msg s ds a p kw =
       (if mode s = ''queue'' then
          (case to_queue_message ds of
             Inl e \<Rightarrow> (Some e, ds\<lparr>status := Some QUEUED\<rparr>, s1)
           | Inr msg0 \<Rightarrow>
               (case action_queue s of
                  None \<Rightarrow> (Some AttributeError, ds\<lparr>status := Some QUEUED\<rparr>, s1)
                | Some q \<Rightarrow>
                    (None, ds\<lparr>status := Some QUEUED\<rparr>,
                     s1\<lparr>action_queue := Some (q @ [((msg0(''action'' \<mapsto> JStr a)) ++ kw, p)]),
                        logger := logger s1 @ [''New message posted to %s: %s'']\<rparr>)))
        else (None, ds\<lparr>status := Some QUEUED\<rparr>, s1))"
    by (simp add: post_sm_msg_def set_status_def Let_def sv m split: sum.splits option.splits)
  with a(1) s1_def show ?thesis by (auto intro: that)
qed

lemma lower_alice: "lower ''Alice@Lab.org'' = ''alice@lab.org''"
  by code_simp

lemma to_queue_message_ds_one:
  "to_queue_message ds_one =
     Inr [''ds_id'' \<mapsto> JStr ''ds1'', ''ds_name'' \<mapsto> JStr ''one'', ''input_path'' \<mapsto> JStr ''s3://in'',
          ''user_email'' \<mapsto> JStr ''alice@lab.org'']"
  by (simp add: to_queue_message_def ds_one_def meta_alice_def get_or_empty_def get_or_none_def
      truthy_def json_of_str_def lower_alice Let_def)


lemma save_assert_ds_one: "save_assert ds_one" "save_assert (ds_one\<lparr>status := Some QUEUED\<rparr>)"
  by (simp_all add: save_assert_def ds_one_def truthy_str_def truthy_dict_def truthy_ids_def
      NEW_def QUEUED_def cfg_A_X_def)

text \<open>
  Claim C8 says that \<open>save\<close> persists only when every attribute but the status is
  present, and that the status may be absent. A dataset without metadata is
  persisted, and a dataset that lacks nothing but its status is refused.
\<close>

theorem save_counterexample:
  "save api_empty (ds_one\<lparr>metadata := None\<rparr>) =
     (None, api_empty\<lparr>db := [''ds1'' \<mapsto> ds_one\<lparr>metadata := None\<rparr>], es := [''ds1''],
        status_queue := Some [(''ds1'', NEW)],
        logger := [''Inserted into dataset table: %s, %s'']\<rparr>)
   \<and> save api_empty (ds_one\<lparr>status := None\<rparr>) = (Some AssertionError, api_empty)"
  by (simp add: save_def save_assert_def ds_one_def truthy_str_def truthy_dict_def truthy_ids_def
      NEW_def cfg_A_X_def api_empty_def is_stored_def Let_def)

text \<open>
  Claim C8, amended. \<open>save\<close> persists the dataset exactly when the id, the name
  and the input path are non-empty strings, the upload timestamp is present, the
  config is a non-empty dict, the status is a non-empty string, the visibility flag
  is not \<open>None\<close> and the list of molecular databases is non-empty; otherwise it
  raises AssertionError and changes nothing. The metadata plays no part: it may be
  absent.
\<close>

theorem save_requires:
  "(fst (save s ds) = None) =
     (\<exists>i n p t c st b m.
        ds_id ds = Some i \<and> i \<noteq> [] \<and> name ds = Some n \<and> n \<noteq> []
        \<and> input_path ds = Some p \<and> p \<noteq> [] \<and> upload_dt ds = Some t
        \<and> config ds = Some c \<and> c \<noteq> Map.empty \<and> status ds = Some st \<and> st \<noteq> []
        \<and> is_public ds = Some b \<and> mol_dbs ds = Some m \<and> m \<noteq> [])
   \<and> (fst (save s ds) \<noteq> None \<longrightarrow> save s ds = (Some AssertionError, s))
   \<and> (fst (save s ds) = None \<longrightarrow>
         (\<exists>i. ds_id ds = Some i \<and> db (snd (save s ds)) i = Some ds))
   \<and> fst (save s (ds\<lparr>metadata := md\<rparr>)) = fst (save s ds)"
proof -
  have 1: "(fst (save s ds) = None) = save_assert ds"
    by (cases "save_assert ds") (simp_all add: save_ok_fst save_fail)
  have 2: "fst (save s ds) \<noteq> None \<longrightarrow> save s ds = (Some AssertionError, s)"
    using 1 save_fail[of ds s] by auto
  have 3: "fst (save s ds) = None \<longrightarrow>
         (\<exists>i. ds_id ds = Some i \<and> db (snd (save s ds)) i = Some ds)"
  proof
    assume "fst (save s ds) = None"
    with 1 have "save_assert ds" by simp
    then show "\<exists>i. ds_id ds = Some i \<and> db (snd (save s ds)) i = Some ds"
      by (rule save_ok[where s=s]) simp
  qed
  have "save_assert (ds\<lparr>metadata := md\<rparr>) = save_assert ds"
    by (simp add: save_assert_def)
  then have 4: "fst (save s (ds\<lparr>metadata := md\<rparr>)) = fst (save s ds)"
    by (cases "save_assert ds") (simp_all add: save_ok_fst save_fail)
  from 1 have 5: "(fst (save s ds) = None) =
     (\<exists>i n p t c st b m.
        ds_id ds = Some i \<and> i \<noteq> [] \<and> name ds = Some n \<and> n \<noteq> []
        \<and> input_path ds = Some p \<and> p \<noteq> [] \<and> upload_dt ds = Some t
        \<and> config ds = Some c \<and> c \<noteq> Map.empty \<and> status ds = Some st \<and> st \<noteq> []
        \<and> is_public ds = Some b \<and> mol_dbs ds = Some m \<and> m \<noteq> [])"
    unfolding save_assert_iff .
  from 5 2 3 4 show ?thesis by (intro conjI)
qed

theorem save_requires_witness:
  "fst (save api_empty ds_one) = None
   \<and> db (snd (save api_empty ds_one)) ''ds1'' = Some ds_one
   \<and> save api_empty (ds_one\<lparr>name := None\<rparr>) = (Some AssertionError, api_empty)"
proof -
  have "\<exists>i n p t c st b m.
        ds_id ds_one = Some i \<and> i \<noteq> [] \<and> name ds_one = Some n \<and> n \<noteq> []
        \<and> input_path ds_one = Some p \<and> p \<noteq> [] \<and> upload_dt ds_one = Some t
        \<and> config ds_one = Some c \<and> c \<noteq> Map.empty \<and> status ds_one = Some st \<and> st \<noteq> []
        \<and> is_public ds_one = Some b \<and> mol_dbs ds_one = Some m \<and> m \<noteq> []"
    using save_assert_ds_one(1) unfolding save_assert_iff .
  with save_requires[of api_empty ds_one None]
  have a: "fst (save api_empty ds_one) = None" by blast
  with save_requires[of api_empty ds_one None]
  have b: "db (snd (save api_empty ds_one)) ''ds1'' = Some ds_one"
    by (simp add: ds_one_def)
  have "fst (save api_empty (ds_one\<lparr>name := None\<rparr>)) \<noteq> None"
    using save_requires[of api_empty "ds_one\<lparr>name := None\<rparr>" None] by simp
  with save_requires[of api_empty "ds_one\<lparr>name := None\<rparr>" None]
  have c: "save api_empty (ds_one\<lparr>name := None\<rparr>) = (Some AssertionError, api_empty)"
    by blast
  from a b c show ?thesis by blast
qed

lemma new_messages_same: "action_queue s' = action_queue s \<Longrightarrow> new_messages s s' = []"
  by (simp add: new_messages_def published_def)

lemma new_messages_snoc:
  "action_queue s = Some q \<Longrightarrow> action_queue s' = Some (q @ [x]) \<Longrightarrow> new_messages s s' = [x]"
  by (simp add: new_messages_def published_def)

lemma post_sm_msg_new_messages:
  "new_messages s (snd (snd (post_sm_msg s ds a p kw))) = []
   \<or> (\<exists>msg0. to_queue_message ds = Inr msg0
         \<and> new_messages s (snd (snd (post_sm_msg s ds a p kw))) =
             [((msg0(''action'' \<mapsto> JStr a)) ++ kw, p)])"
proof (cases "save_assert (ds\<lparr>status := Some QUEUED\<rparr>)")
  case False
  then show ?thesis by (simp add: post_sm_msg_fail new_messages_same)
next
  case True
  then obtain i s1 where s1: "ds_id ds = Some i"
    "s1 = s\<lparr>db := (db s)(i \<mapsto> ds\<lparr>status := Some QUEUED\<rparr>),
        es := es s @ [i],
        status_queue := map_option (\<lambda>q. q @ [(i, QUEUED)]) (status_queue s),
        logger := logger s @ [''Inserted into dataset table: %s, %s'']\<rparr>"
    "post_sm_msg s ds a p kw =
       (if mode s = ''queue'' then
          (case to_queue_message ds of
             Inl e \<Rightarrow> (Some e, ds\<lparr>status := Some QUEUED\<rparr>, s1)
           | Inr msg0 \<Rightarrow>
               (case action_queue s of
                  None \<Rightarrow> (Some AttributeError, ds\<lparr>status := Some QUEUED\<rparr>, s1)
                | Some q \<Rightarrow>
                    (None, ds\<lparr>status := Some QUEUED\<rparr>,
                     s1\<lparr>action_queue := Some (q @ [((msg0(''action'' \<mapsto> JStr a)) ++ kw, p)]),
                        logger := logger s1 @ [''New message posted to %s: %s'']\<rparr>)))
        else (None, ds\<lparr>status := Some QUEUED\<rparr>, s1))"
    by (rule post_sm_msg_ok)
  have q: "action_queue s1 = action_queue s" by (simp add: s1(2))
  show ?thesis
    unfolding s1(3)
    by (auto simp: new_messages_same[OF q] new_messages_snoc split: sum.splits option.splits)
qed

lemma to_queue_message_dom:
  "to_queue_message ds = Inr m \<Longrightarrow>
     dom m \<subseteq> {''ds_id'', ''ds_name'', ''input_path'', ''user_email''}"
  by (auto simp: to_queue_message_def Let_def
        split: option.splits sum.splits if_splits json.splits)

text \<open>
  Claim C5. \<open>delete\<close> takes no priority from its caller. Every action message a
  \<open>delete\<close> call publishes, whatever the dataset and the state of the collaborators,
  carries the action DELETE and is published at priority HIGH, which is 2; and in
  queue mode, for a dataset that passes the presence check of \<open>save\<close> and whose
  message can be built, the call returns normally and has published exactly that
  message at priority 2.
\<close>

theorem delete_priority_high:
  "(\<forall>mp \<in> set (new_messages s (snd (snd (delete s ds del_raw_data)))).
       snd mp = HIGH \<and> fst mp ''action'' = Some (JStr DELETE))
   \<and> HIGH = 2
   \<and> (mode s = ''queue'' \<and> save_assert (ds\<lparr>status := Some QUEUED\<rparr>)
        \<and> to_queue_message ds = Inr msg \<and> action_queue s = Some q \<longrightarrow>
          fst (delete s ds del_raw_data) = None
          \<and> action_queue (snd (snd (delete s ds del_raw_data))) =
               Some (q @ [(msg(''action'' \<mapsto> JStr DELETE), 2)]))"
proof (intro conjI impI)
  from post_sm_msg_new_messages[of s ds DELETE HIGH Map.empty]
  show "\<forall>mp \<in> set (new_messages s (snd (snd (delete s ds del_raw_data)))).
       snd mp = HIGH \<and> fst mp ''action'' = Some (JStr DELETE)"
    by (auto simp: delete_def)
next
  show "HIGH = 2" by (simp add: HIGH_def)
next
  assume a: "mode s = ''queue'' \<and> save_assert (ds\<lparr>status := Some QUEUED\<rparr>)
        \<and> to_queue_message ds = Inr msg \<and> action_queue s = Some q"
  then have "save_assert (ds\<lparr>status := Some QUEUED\<rparr>)" by simp
  then obtain i s1 where s1: "ds_id ds = Some i"
    "s1 = s\<lparr>db := (db s)(i \<mapsto> ds\<lparr>status := Some QUEUED\<rparr>),
        es := es s @ [i],
        status_queue := map_option (\<lambda>q. q @ [(i, QUEUED)]) (status_queue s),
        logger := logger s @ [''Inserted into dataset table: %s, %s'']\<rparr>"
    "post_sm_msg s ds DELETE HIGH Map.empty =
       (if mode s = ''queue'' then
          (case to_queue_message ds of
             Inl e \<Rightarrow> (Some e, ds\<lparr>status := Some QUEUED\<rparr>, s1)
           | Inr msg0 \<Rightarrow>
               (case action_queue s of
                  None \<Rightarrow> (Some AttributeError, ds\<lparr>status := Some QUEUED\<rparr>, s1)
                | Some q \<Rightarrow>
                    (None, ds\<lparr>status := Some QUEUED\<rparr>,
                     s1\<lparr>action_queue := Some (q @ [((msg0(''action'' \<mapsto> JStr DELETE)) ++ Map.empty, HIGH)]),
                        logger := logger s1 @ [''New message posted to %s: %s'']\<rparr>)))
        else (None, ds\<lparr>status := Some QUEUED\<rparr>, s1))"
    by (rule post_sm_msg_ok)
  from a s1(3) show "fst (delete s ds del_raw_data) = None"
    by (simp add: delete_def)
  from a s1(3) show "action_queue (snd (snd (delete s ds del_raw_data))) =
               Some (q @ [(msg(''action'' \<mapsto> JStr DELETE), 2)])"
    by (simp add: delete_def HIGH_def)
qed


lemma api_empty_fields:
  "mode api_empty = ''queue''" "action_queue api_empty = Some []" "db api_empty = Map.empty"
  "mode api_local = ''local''" "action_queue api_local = Some []" "db api_local = Map.empty"
  "mode api_stored = ''queue''" "action_queue api_stored = Some []"
  "db api_stored = [''ds1'' \<mapsto> ds_one]"
  by (simp_all add: api_empty_def api_local_def api_stored_def)

theorem delete_priority_high_witness:
  "mode api_empty = ''queue'' \<and> save_assert (ds_one\<lparr>status := Some QUEUED\<rparr>)
   \<and> action_queue api_empty = Some []
   \<and> fst (delete api_empty ds_one False) = None
   \<and> action_queue (snd (snd (delete api_empty ds_one False))) =
        Some [([''ds_id'' \<mapsto> JStr ''ds1'', ''ds_name'' \<mapsto> JStr ''one'',
                ''input_path'' \<mapsto> JStr ''s3://in'', ''user_email'' \<mapsto> JStr ''alice@lab.org'',
                ''action'' \<mapsto> JStr ''DELETE''], 2)]"
proof -
  have h: "mode api_empty = ''queue'' \<and> save_assert (ds_one\<lparr>status := Some QUEUED\<rparr>)
      \<and> to_queue_message ds_one =
           Inr [''ds_id'' \<mapsto> JStr ''ds1'', ''ds_name'' \<mapsto> JStr ''one'',
                ''input_path'' \<mapsto> JStr ''s3://in'', ''user_email'' \<mapsto> JStr ''alice@lab.org'']
      \<and> action_queue api_empty = Some []"
    by (simp add: api_empty_fields save_assert_ds_one to_queue_message_ds_one)
  with delete_priority_high[of api_empty ds_one False
      "[''ds_id'' \<mapsto> JStr ''ds1'', ''ds_name'' \<mapsto> JStr ''one'',
        ''input_path'' \<mapsto> JStr ''s3://in'', ''user_email'' \<mapsto> JStr ''alice@lab.org'']" "[]"]
  show ?thesis by (simp add: DELETE_def)
qed

text \<open>
  Claim C9. \<open>delete\<close> accepts \<open>del_raw_data\<close> and never forwards it: the call does
  the same whether the flag is set or not, and a message it publishes has no key
  \<open>del_raw_data\<close>; its keys are among \<open>ds_id\<close>, \<open>ds_name\<close>, \<open>input_path\<close>,
  \<open>user_email\<close> and \<open>action\<close>, so it carries no extras at all.
\<close>

theorem delete_drops_del_raw_data:
  "delete s ds True = delete s ds False
   \<and> (\<forall>mp \<in> set (new_messages s (snd (snd (delete s ds del_raw_data)))).
         fst mp ''del_raw_data'' = None
         \<and> dom (fst mp) \<subseteq> {''ds_id'', ''ds_name'', ''input_path'', ''user_email'', ''action''})"
proof (intro conjI ballI)
  show "delete s ds True = delete s ds False" by (simp add: delete_def)
next
  fix mp assume m: "mp \<in> set (new_messages s (snd (snd (delete s ds del_raw_data))))"
  with post_sm_msg_new_messages[of s ds DELETE HIGH Map.empty]
  obtain msg0 where msg0: "to_queue_message ds = Inr msg0"
      "mp = (msg0(''action'' \<mapsto> JStr DELETE), HIGH)"
    by (auto simp: delete_def)
  from to_queue_message_dom[OF msg0(1)]
  have d: "dom msg0 \<subseteq> {''ds_id'', ''ds_name'', ''input_path'', ''user_email''}" .
  then have "''del_raw_data'' \<notin> dom msg0" by auto
  then have "msg0 ''del_raw_data'' = None" by (simp add: domIff)
  with msg0(2) show "fst mp ''del_raw_data'' = None" by simp
  from d msg0(2)
  show "dom (fst mp) \<subseteq> {''ds_id'', ''ds_name'', ''input_path'', ''user_email'', ''action''}"
    by auto
qed

lemma delete_ds_one:
  "new_messages api_empty (snd (snd (delete api_empty ds_one True))) =
     [([''ds_id'' \<mapsto> JStr ''ds1'', ''ds_name'' \<mapsto> JStr ''one'',
        ''input_path'' \<mapsto> JStr ''s3://in'', ''user_email'' \<mapsto> JStr ''alice@lab.org'',
        ''action'' \<mapsto> JStr ''DELETE''], 2)]"
proof -
  have "save_assert (ds_one\<lparr>status := Some QUEUED\<rparr>)" by (rule save_assert_ds_one)
  then obtain i s1 where s1: "ds_id ds_one = Some i"
    "s1 = api_empty\<lparr>db := (db api_empty)(i \<mapsto> ds_one\<lparr>status := Some QUEUED\<rparr>),
        es := es api_empty @ [i],
        status_queue := map_option (\<lambda>q. q @ [(i, QUEUED)]) (status_queue api_empty),
        logger := logger api_empty @ [''Inserted into dataset table: %s, %s'']\<rparr>"
    "post_sm_msg api_empty ds_one DELETE HIGH Map.empty =
       (if mode api_empty = ''queue'' then
          (case to_queue_message ds_one of
             Inl e \<Rightarrow> (Some e, ds_one\<lparr>status := Some QUEUED\<rparr>, s1)
           | Inr msg0 \<Rightarrow>
               (case action_queue api_empty of
                  None \<Rightarrow> (Some AttributeError, ds_one\<lparr>status := Some QUEUED\<rparr>, s1)
                | Some q \<Rightarrow>
                    (None, ds_one\<lparr>status := Some QUEUED\<rparr>,
                     s1\<lparr>action_queue := Some (q @ [((msg0(''action'' \<mapsto> JStr DELETE)) ++ Map.empty, HIGH)]),
                        logger := logger s1 @ [''New message posted to %s: %s'']\<rparr>)))
        else (None, ds_one\<lparr>status := Some QUEUED\<rparr>, s1))"
    by (rule post_sm_msg_ok)
  from s1(3) show ?thesis
    by (simp add: delete_def api_empty_fields to_queue_message_ds_one new_messages_def
        published_def DELETE_def HIGH_def)
qed

theorem delete_drops_del_raw_data_witness:
  "delete api_empty ds_one True = delete api_empty ds_one False
   \<and> new_messages api_empty (snd (snd (delete api_empty ds_one True))) =
       [([''ds_id'' \<mapsto> JStr ''ds1'', ''ds_name'' \<mapsto> JStr ''one'',
          ''input_path'' \<mapsto> JStr ''s3://in'', ''user_email'' \<mapsto> JStr ''alice@lab.org'',
          ''action'' \<mapsto> JStr ''DELETE''], 2)]
   \<and> [''ds_id'' \<mapsto> JStr ''ds1'', ''ds_name'' \<mapsto> JStr ''one'',
          ''input_path'' \<mapsto> JStr ''s3://in'', ''user_email'' \<mapsto> JStr ''alice@lab.org'',
          ''action'' \<mapsto> JStr ''DELETE''] ''del_raw_data'' = None"
proof -
  note t = delete_drops_del_raw_data[of api_empty ds_one True]
  from t have a: "delete api_empty ds_one True = delete api_empty ds_one False" by blast
  from t have "\<forall>mp \<in> set (new_messages api_empty (snd (snd (delete api_empty ds_one True)))).
      fst mp ''del_raw_data'' = None" by blast
  then have c: "[''ds_id'' \<mapsto> JStr ''ds1'', ''ds_name'' \<mapsto> JStr ''one'',
          ''input_path'' \<mapsto> JStr ''s3://in'', ''user_email'' \<mapsto> JStr ''alice@lab.org'',
          ''action'' \<mapsto> JStr ''DELETE''] ''del_raw_data'' = None"
    unfolding delete_ds_one by simp
  from a delete_ds_one c show ?thesis by (intro conjI)
qed

lemma is_stored_examples:
  "\<not> is_stored api_empty ds_one" "\<not> is_stored api_local ds_one" "is_stored api_stored ds_one"
  "\<not> is_stored api_empty (Dataset (Some ''ds1''))"
  by (simp_all add: is_stored_def api_empty_fields ds_one_def Dataset_def)

text \<open>
  Claim C4 says that every ADD request other than one for a stored id without
  \<open>del_first\<close> sets the status to QUEUED and publishes a message. In queue mode,
  an ADD of a new dataset that has only its id raises AssertionError in \<open>save\<close>:
  nothing is stored and nothing is published. In local mode, an ADD of a new and
  complete dataset returns normally with the status QUEUED and publishes nothing.
\<close>

theorem add_counterexample:
  "\<not> is_stored api_empty (Dataset (Some ''ds1''))
   \<and> add api_empty (Dataset (Some ''ds1'')) False LOW =
        (Some AssertionError, (Dataset (Some ''ds1''))\<lparr>status := Some QUEUED\<rparr>, api_empty)
   \<and> \<not> is_stored api_local ds_one
   \<and> fst (add api_local ds_one False LOW) = None
   \<and> status (fst (snd (add api_local ds_one False LOW))) = Some QUEUED
   \<and> action_queue (snd (snd (add api_local ds_one False LOW))) = Some []"
proof -
  have n: "\<not> save_assert ((Dataset (Some ''ds1''))\<lparr>status := Some QUEUED\<rparr>)"
    by (simp add: save_assert_def Dataset_def truthy_str_def)
  have a: "add api_empty (Dataset (Some ''ds1'')) False LOW =
        (Some AssertionError, (Dataset (Some ''ds1''))\<lparr>status := Some QUEUED\<rparr>, api_empty)"
    by (simp add: add_def is_stored_examples post_sm_msg_fail[OF n])
  have "save_assert (ds_one\<lparr>status := Some QUEUED\<rparr>)" by (rule save_assert_ds_one)
  then obtain i s1 where s1: "ds_id ds_one = Some i"
    "s1 = api_local\<lparr>db := (db api_local)(i \<mapsto> ds_one\<lparr>status := Some QUEUED\<rparr>),
        es := es api_local @ [i],
        status_queue := map_option (\<lambda>q. q @ [(i, QUEUED)]) (status_queue api_local),
        logger := logger api_local @ [''Inserted into dataset table: %s, %s'']\<rparr>"
    "post_sm_msg api_local ds_one ADD LOW [''del_first'' \<mapsto> JBool False] =
       (if mode api_local = ''queue'' then
          (case to_queue_message ds_one of
             Inl e \<Rightarrow> (Some e, ds_one\<lparr>status := Some QUEUED\<rparr>, s1)
           | Inr msg0 \<Rightarrow>
               (case action_queue api_local of
                  None \<Rightarrow> (Some AttributeError, ds_one\<lparr>status := Some QUEUED\<rparr>, s1)
                | Some q \<Rightarrow>
                    (None, ds_one\<lparr>status := Some QUEUED\<rparr>,
                     s1\<lparr>action_queue := Some (q @ [((msg0(''action'' \<mapsto> JStr ADD)) ++ [''del_first'' \<mapsto> JBool False], LOW)]),
                        logger := logger s1 @ [''New message posted to %s: %s'']\<rparr>)))
        else (None, ds_one\<lparr>status := Some QUEUED\<rparr>, s1))"
    by (rule post_sm_msg_ok)
  from s1(2,3) have b: "add api_local ds_one False LOW = (None, ds_one\<lparr>status := Some QUEUED\<rparr>, s1)"
      and q: "action_queue s1 = Some []"
    by (simp_all add: add_def is_stored_examples api_empty_fields)
  from a b q is_stored_examples show ?thesis by simp
qed

text \<open>
  Claim C4, amended. An ADD for an id that is stored, without \<open>del_first\<close>, fails
  with DSIDExists and leaves the dataset, the storage and the queues as they were.
  Every other ADD sets the status of the dataset to QUEUED and then depends on the
  presence check of \<open>save\<close>: if the dataset fails it, the call raises AssertionError
  and nothing is stored or published; if it passes, the dataset is stored with the
  status QUEUED, and
  \<^item> in a mode other than \<open>'queue'\<close> the call returns normally and publishes nothing;
  \<^item> in mode \<open>'queue'\<close>, with an action queue and a message that can be built from
    the dataset, the call returns normally and has published that message with the
    action ADD and the flag \<open>del_first\<close>, at the priority the caller gave.
\<close>

theorem add_dispatch:
  "(\<not> del_first \<and> is_stored s ds \<longrightarrow> add s ds del_first priority = (Some DSIDExists, ds, s))
   \<and> (del_first \<or> \<not> is_stored s ds \<longrightarrow>
        (\<not> save_assert (ds\<lparr>status := Some QUEUED\<rparr>) \<longrightarrow>
           add s ds del_first priority = (Some AssertionError, ds\<lparr>status := Some QUEUED\<rparr>, s))
      \<and> (save_assert (ds\<lparr>status := Some QUEUED\<rparr>) \<longrightarrow>
           fst (snd (add s ds del_first priority)) = ds\<lparr>status := Some QUEUED\<rparr>
           \<and> (\<exists>i. ds_id ds = Some i
                 \<and> db (snd (snd (add s ds del_first priority))) i = Some (ds\<lparr>status := Some QUEUED\<rparr>))
           \<and> (mode s \<noteq> ''queue'' \<longrightarrow>
                 fst (add s ds del_first priority) = None
                 \<and> action_queue (snd (snd (add s ds del_first priority))) = action_queue s)
           \<and> (mode s = ''queue'' \<and> to_queue_message ds = Inr msg \<and> action_queue s = Some q \<longrightarrow>
                 fst (add s ds del_first priority) = None
                 \<and> action_queue (snd (snd (add s ds del_first priority))) =
                      Some (q @ [(msg(''action'' \<mapsto> JStr ADD, ''del_first'' \<mapsto> JBool del_first),
                                  priority)]))))"
proof (intro conjI impI)
  assume "\<not> del_first \<and> is_stored s ds"
  then show "add s ds del_first priority = (Some DSIDExists, ds, s)" by (simp add: add_def)
next
  assume o: "del_first \<or> \<not> is_stored s ds" and n: "\<not> save_assert (ds\<lparr>status := Some QUEUED\<rparr>)"
  from o have "add s ds del_first priority =
      post_sm_msg s ds ADD priority [''del_first'' \<mapsto> JBool del_first]"
    by (auto simp: add_def)
  with post_sm_msg_fail[OF n]
  show "add s ds del_first priority = (Some AssertionError, ds\<lparr>status := Some QUEUED\<rparr>, s)"
    by simp
next
  assume o: "del_first \<or> \<not> is_stored s ds" and y: "save_assert (ds\<lparr>status := Some QUEUED\<rparr>)"
  from o have e: "add s ds del_first priority =
      post_sm_msg s ds ADD priority [''del_first'' \<mapsto> JBool del_first]"
    by (auto simp: add_def)
  from y obtain i s1 where s1: "ds_id ds = Some i"
    "s1 = s\<lparr>db := (db s)(i \<mapsto> ds\<lparr>status := Some QUEUED\<rparr>),
        es := es s @ [i],
        status_queue := map_option (\<lambda>q. q @ [(i, QUEUED)]) (status_queue s),
        logger := logger s @ [''Inserted into dataset table: %s, %s'']\<rparr>"
    "post_sm_msg s ds ADD priority [''del_first'' \<mapsto> JBool del_first] =
       (if mode s = ''queue'' then
          (case to_queue_message ds of
             Inl e \<Rightarrow> (Some e, ds\<lparr>status := Some QUEUED\<rparr>, s1)
           | Inr msg0 \<Rightarrow>
               (case action_queue s of
                  None \<Rightarrow> (Some AttributeError, ds\<lparr>status := Some QUEUED\<rparr>, s1)
                | Some q \<Rightarrow>
                    (None, ds\<lparr>status := Some QUEUED\<rparr>,
                     s1\<lparr>action_queue := Some (q @ [((msg0(''action'' \<mapsto> JStr ADD)) ++ [''del_first'' \<mapsto> JBool del_first], priority)]),
                        logger := logger s1 @ [''New message posted to %s: %s'']\<rparr>)))
        else (None, ds\<lparr>status := Some QUEUED\<rparr>, s1))"
    by (rule post_sm_msg_ok)
  have f: "db s1 i = Some (ds\<lparr>status := Some QUEUED\<rparr>)" "action_queue s1 = action_queue s"
    by (simp_all add: s1(2))
  from e s1(3) show "fst (snd (add s ds del_first priority)) = ds\<lparr>status := Some QUEUED\<rparr>"
    by (simp split: sum.splits option.splits)
  from e s1(1,3) f
  show "\<exists>i. ds_id ds = Some i
      \<and> db (snd (snd (add s ds del_first priority))) i = Some (ds\<lparr>status := Some QUEUED\<rparr>)"
    by (simp split: sum.splits option.splits)
  {
    assume "mode s \<noteq> ''queue''"
    with e s1(3) f show "fst (add s ds del_first priority) = None"
      and "action_queue (snd (snd (add s ds del_first priority))) = action_queue s"
      by simp_all
  }
  {
    assume "mode s = ''queue'' \<and> to_queue_message ds = Inr msg \<and> action_queue s = Some q"
    with e s1(3) show "fst (add s ds del_first priority) = None"
      and "action_queue (snd (snd (add s ds del_first priority))) =
                      Some (q @ [(msg(''action'' \<mapsto> JStr ADD, ''del_first'' \<mapsto> JBool del_first),
                                  priority)])"
      by simp_all
  }
qed


theorem add_dispatch_witness:
  "is_stored api_stored ds_one
   \<and> add api_stored ds_one False LOW = (Some DSIDExists, ds_one, api_stored)
   \<and> \<not> is_stored api_empty ds_one
   \<and> save_assert (ds_one\<lparr>status := Some QUEUED\<rparr>)
   \<and> mode api_empty = ''queue''
   \<and> fst (add api_empty ds_one False STANDARD) = None
   \<and> fst (snd (add api_empty ds_one False STANDARD)) = ds_one\<lparr>status := Some QUEUED\<rparr>
   \<and> db (snd (snd (add api_empty ds_one False STANDARD))) ''ds1'' =
        Some (ds_one\<lparr>status := Some QUEUED\<rparr>)
   \<and> action_queue (snd (snd (add api_empty ds_one False STANDARD))) =
        Some [([''ds_id'' \<mapsto> JStr ''ds1'', ''ds_name'' \<mapsto> JStr ''one'',
                ''input_path'' \<mapsto> JStr ''s3://in'', ''user_email'' \<mapsto> JStr ''alice@lab.org'',
                ''action'' \<mapsto> JStr ''ADD'', ''del_first'' \<mapsto> JNum 0], 1)]"
proof -
  note t1 = add_dispatch[of False api_stored ds_one LOW]
  from t1 is_stored_examples(3)
  have a: "add api_stored ds_one False LOW = (Some DSIDExists, ds_one, api_stored)" by blast
  note t2 = add_dispatch[of False api_empty ds_one STANDARD
      "[''ds_id'' \<mapsto> JStr ''ds1'', ''ds_name'' \<mapsto> JStr ''one'',
        ''input_path'' \<mapsto> JStr ''s3://in'', ''user_email'' \<mapsto> JStr ''alice@lab.org'']" "[]"]
  have h: "\<not> is_stored api_empty ds_one" "save_assert (ds_one\<lparr>status := Some QUEUED\<rparr>)"
    "mode api_empty = ''queue''" "action_queue api_empty = Some []"
    "to_queue_message ds_one =
       Inr [''ds_id'' \<mapsto> JStr ''ds1'', ''ds_name'' \<mapsto> JStr ''one'',
            ''input_path'' \<mapsto> JStr ''s3://in'', ''user_email'' \<mapsto> JStr ''alice@lab.org'']"
    by (simp_all add: is_stored_examples save_assert_ds_one api_empty_fields
        to_queue_message_ds_one)
  from t2 h have b: "fst (add api_empty ds_one False STANDARD) = None"
    and c: "fst (snd (add api_empty ds_one False STANDARD)) = ds_one\<lparr>status := Some QUEUED\<rparr>"
    and d: "\<exists>i. ds_id ds_one = Some i
        \<and> db (snd (snd (add api_empty ds_one False STANDARD))) i =
            Some (ds_one\<lparr>status := Some QUEUED\<rparr>)"
    and e: "action_queue (snd (snd (add api_empty ds_one False STANDARD))) =
        Some ([] @ [([''ds_id'' \<mapsto> JStr ''ds1'', ''ds_name'' \<mapsto> JStr ''one'',
                ''input_path'' \<mapsto> JStr ''s3://in'', ''user_email'' \<mapsto> JStr ''alice@lab.org'',
                ''action'' \<mapsto> JStr ADD, ''del_first'' \<mapsto> JBool False], STANDARD)])"
    by blast+
  from d have d': "db (snd (snd (add api_empty ds_one False STANDARD))) ''ds1'' =
        Some (ds_one\<lparr>status := Some QUEUED\<rparr>)"
    by (simp add: ds_one_def)
  from e have e': "action_queue (snd (snd (add api_empty ds_one False STANDARD))) =
        Some [([''ds_id'' \<mapsto> JStr ''ds1'', ''ds_name'' \<mapsto> JStr ''one'',
                ''input_path'' \<mapsto> JStr ''s3://in'', ''user_email'' \<mapsto> JStr ''alice@lab.org'',
                ''action'' \<mapsto> JStr ''ADD'', ''del_first'' \<mapsto> JNum 0], 1)]"
    by (simp add: ADD_def JBool_def STANDARD_def)
  from is_stored_examples(3) a h(1,2,3) b c d' e' show ?thesis by (intro conjI)
qed

text \<open>
  \<open>update\<close> reads the attribute \<open>meta\<close>, which no Dataset has: whatever the
  arguments, the call ends in an exception and leaves everything as it was.
\<close>

lemma getattr_meta: "getattr ds ''meta'' = Inl AttributeError"
  by (simp add: getattr_def)

lemma update_never_dispatches: "\<exists>e. update s ds priority = (Some e, ds, s)"
  by (simp add: update_def getattr_meta split: sum.splits)

lemma load_stored: "load api_stored (Some ''ds1'') = Inr ds_one"
  by (simp add: load_def api_empty_fields ds_one_def)

lemma update_stored:
  "ds_id ds = Some ''ds1'' \<Longrightarrow> config ds = Some c \<Longrightarrow> compare_configs cfg_A_X c = Inr r \<Longrightarrow>
     update api_stored ds p = (Some AttributeError, ds, api_stored)"
  by (simp add: update_def load_stored getattr_meta compare_configs_attr_def ds_one_def)

text \<open>
  Claim C1 describes the decision table of \<open>update\<close>: ADD with \<open>del_first\<close> for
  changed instrument parameters, ADD for a new molecular database, UPDATE at priority
  HIGH for changed metadata only, and a logged no-op otherwise. With \<open>ds_one\<close> stored,
  the source raises AttributeError in each of the four cases, at the read of
  \<open>old_ds.meta\<close>, and publishes, stores and logs nothing.
\<close>

theorem update_raises_attribute_error:
  "compare_configs cfg_A_X cfg_B_X = Inr INSTR_PARAMS_DIFF
   \<and> update api_stored (ds_one\<lparr>config := Some cfg_B_X\<rparr>) LOW =
        (Some AttributeError, ds_one\<lparr>config := Some cfg_B_X\<rparr>, api_stored)
   \<and> compare_configs cfg_A_X cfg_A_XY = Inr NEW_MOL_DB
   \<and> update api_stored (ds_one\<lparr>config := Some cfg_A_XY\<rparr>) LOW =
        (Some AttributeError, ds_one\<lparr>config := Some cfg_A_XY\<rparr>, api_stored)
   \<and> compare_configs cfg_A_X cfg_A_X = Inr EQUAL
   \<and> update api_stored (ds_one\<lparr>metadata := Some Map.empty\<rparr>) LOW =
        (Some AttributeError, ds_one\<lparr>metadata := Some Map.empty\<rparr>, api_stored)
   \<and> update api_stored ds_one LOW = (Some AttributeError, ds_one, api_stored)"
proof -
  have a: "compare_configs cfg_A_X cfg_B_X = Inr INSTR_PARAMS_DIFF"
    and b: "compare_configs cfg_A_X cfg_A_XY = Inr NEW_MOL_DB"
    and c: "compare_configs cfg_A_X cfg_A_X = Inr EQUAL"
    by (simp_all add: compare_configs_wf cfg_wf classify_A_X_B_X classify_A_X_A_XY
        compare_configs_refl)
  have i: "ds_id ds_one = Some ''ds1''" "config ds_one = Some cfg_A_X" by (simp_all add: ds_one_def)
  from a b c i show ?thesis by (simp add: update_stored)
qed

end
